theory Spec2Isabelle
  imports Complex_Main "HOL-Library.Sublist"
begin

section \<open>Values of the ingestion pipeline\<close>

text \<open>
  The model follows \<^verbatim>\<open>src/iot/mqtt_data_manager.py\<close> (class \<^verbatim>\<open>IoTDataManager\<close>).

  A Python float is a finite value (every finite double is a rational), an infinity or
  not-a-number. A decoded JSON document is a \<open>json\<close> value; a dict is the list of its
  items, keys distinct, looked up by key.
\<close>

datatype pyfloat = Fin rat | PInf | NInf | NaN

datatype json =
    JNull
  | JBool bool
  | JInt int
  | JFloat pyfloat
  | JStr string
  | JArr "json list"
  | JObj "(string \<times> json) list"

datatype error =
    JSONDecodeError
  | UnicodeDecodeError
  | AttributeError
  | TypeError
  | ValueError
  | OverflowError
  | StorageError

text \<open>Python's \<^verbatim>\<open><\<close> and \<^verbatim>\<open><=\<close> on floats: every comparison with not-a-number is false.\<close>

fun py_lt :: "pyfloat \<Rightarrow> pyfloat \<Rightarrow> bool" where
  "py_lt NaN _ = False"
| "py_lt _ NaN = False"
| "py_lt (Fin a) (Fin b) = (a < b)"
| "py_lt (Fin a) PInf = True"
| "py_lt (Fin a) NInf = False"
| "py_lt PInf _ = False"
| "py_lt NInf NInf = False"
| "py_lt NInf _ = True"

fun py_le :: "pyfloat \<Rightarrow> pyfloat \<Rightarrow> bool" where
  "py_le NaN _ = False"
| "py_le _ NaN = False"
| "py_le (Fin a) (Fin b) = (a \<le> b)"
| "py_le (Fin a) PInf = True"
| "py_le (Fin a) NInf = False"
| "py_le PInf PInf = True"
| "py_le PInf _ = False"
| "py_le NInf _ = True"

text \<open>\<^verbatim>\<open>d.get(k)\<close>: the value stored under \<open>k\<close>, \<^verbatim>\<open>None\<close> when the key is absent.\<close>

definition dict_get :: "(string \<times> json) list \<Rightarrow> string \<Rightarrow> json" where
  "dict_get d k = (case map_of d k of None \<Rightarrow> JNull | Some v \<Rightarrow> v)"

subsection \<open>The builtin \<^verbatim>\<open>float()\<close>\<close>

text \<open>\<^verbatim>\<open>int.bit_length()\<close>.\<close>

fun bit_length :: "nat \<Rightarrow> nat" where
  "bit_length n = (if n = 0 then 0 else Suc (bit_length (n div 2)))"

declare bit_length.simps [simp del]

text \<open>
  \<^verbatim>\<open>float(i)\<close> for an integer: exact when the magnitude fits the 53-bit significand,
  otherwise rounded to 53 significant bits, ties to even; \<^verbatim>\<open>OverflowError\<close> when the
  rounded magnitude reaches \<open>2 ^ 1024\<close>.
\<close>

definition int_to_float :: "int \<Rightarrow> error + pyfloat" where
  "int_to_float i =
     (let a = nat \<bar>i\<bar> in
      if a < 2 ^ 53 then Inr (Fin (of_int i))
      else
        let e = bit_length a - 53;
            q = a div 2 ^ e;
            r = a mod 2 ^ e;
            q' = (if 2 * r > 2 ^ e \<or> (2 * r = 2 ^ e \<and> odd q) then q + 1 else q);
            m = q' * 2 ^ e
        in if m \<ge> 2 ^ 1024 then Inl OverflowError
           else Inr (Fin (of_int (sgn i) * of_nat m)))"

text \<open>
  \<^verbatim>\<open>float(value)\<close> on a decoded JSON value. Parsing a string is Python's own
  (\<open>str_to_float\<close>, \<open>None\<close> for \<^verbatim>\<open>ValueError\<close>) and is taken as a parameter.
\<close>

fun py_float :: "(string \<Rightarrow> pyfloat option) \<Rightarrow> json \<Rightarrow> error + pyfloat" where
  "py_float str_to_float JNull = Inl TypeError"
| "py_float str_to_float (JBool b) = Inr (Fin (if b then 1 else 0))"
| "py_float str_to_float (JInt i) = int_to_float i"
| "py_float str_to_float (JFloat x) = Inr x"
| "py_float str_to_float (JStr s) =
     (case str_to_float s of None \<Rightarrow> Inl ValueError | Some x \<Rightarrow> Inr x)"
| "py_float str_to_float (JArr _) = Inl TypeError"
| "py_float str_to_float (JObj _) = Inl TypeError"

section \<open>Log records\<close>

text \<open>
  The logger runs at level INFO, so \<^verbatim>\<open>logger.debug\<close> calls emit nothing and are left
  out. Every other logging call appends one record; a record keeps the values the
  message is formatted from.
\<close>

datatype log_record =
    ValueOutOfRange string pyfloat
  | QueueFull
  | OnMessageError error
  | InvalidJSON
  | ProcessingError error
  | StoreSensorError
  | AlertGenerated string string string
  | StoreAlertError
  | CleanedUp nat
  | CleanupError
  | LatestDataError
  | ActiveAlertsError
  | AlertAcknowledged int
  | AcknowledgeError
  | DatabaseInitialized
  | ManagerInitialized

datatype level = INFO | WARNING | ERROR

fun level_of :: "log_record \<Rightarrow> level" where
  "level_of (ValueOutOfRange _ _) = WARNING"
| "level_of QueueFull = WARNING"
| "level_of (AlertGenerated _ _ _) = INFO"
| "level_of (CleanedUp _) = INFO"
| "level_of (AlertAcknowledged _) = INFO"
| "level_of DatabaseInitialized = INFO"
| "level_of ManagerInitialized = INFO"
| "level_of _ = ERROR"

section \<open>Validator\<close>

text \<open>The validation ranges of \<^verbatim>\<open>_validate_sensor_data\<close>, in the dict's order.\<close>

definition ranges :: "(string \<times> int \<times> int) list" where
  "ranges =
     [(''temperature'', -50, 60),
      (''humidity'', 0, 100),
      (''soil_moisture'', 0, 100),
      (''ph_level'', 0, 14),
      (''light_intensity'', 0, 2000),
      (''battery_level'', 0, 100),
      (''signal_strength'', -120, 0)]"

text \<open>\<^verbatim>\<open>min_val <= value <= max_val\<close>.\<close>

definition in_range :: "int \<Rightarrow> int \<Rightarrow> pyfloat \<Rightarrow> bool" where
  "in_range min_val max_val x \<longleftrightarrow>
     py_le (Fin (of_int min_val)) x \<and> py_le x (Fin (of_int max_val))"

text \<open>
  One iteration of the loop over \<open>ranges\<close>: the warnings it logs and either the value
  stored under the field or the exception that leaves the loop. Only
  \<^verbatim>\<open>ValueError\<close> and \<^verbatim>\<open>TypeError\<close> are caught.
\<close>

definition validate_field ::
  "(string \<Rightarrow> pyfloat option) \<Rightarrow> (string \<times> json) list \<Rightarrow> string \<Rightarrow> int \<Rightarrow> int
     \<Rightarrow> log_record list \<times> (error + json)" where
  "validate_field str_to_float data field min_val max_val =
     (let v = dict_get data field in
      if v \<noteq> JNull then
        (case py_float str_to_float v of
           Inr x \<Rightarrow>
             if in_range min_val max_val x then ([], Inr (JFloat x))
             else ([ValueOutOfRange field x], Inr JNull)
         | Inl e \<Rightarrow>
             if e = ValueError \<or> e = TypeError then ([], Inr JNull) else ([], Inl e))
      else ([], Inr JNull))"

fun validate_fields ::
  "(string \<Rightarrow> pyfloat option) \<Rightarrow> (string \<times> json) list \<Rightarrow> (string \<times> int \<times> int) list
     \<Rightarrow> log_record list \<times> (error + (string \<times> json) list)" where
  "validate_fields str_to_float data [] = ([], Inr [])"
| "validate_fields str_to_float data ((field, min_val, max_val) # rs) =
     (case validate_field str_to_float data field min_val max_val of
        (w, Inl e) \<Rightarrow> (w, Inl e)
      | (w, Inr v) \<Rightarrow>
          (case validate_fields str_to_float data rs of
             (ws, Inl e) \<Rightarrow> (w @ ws, Inl e)
           | (ws, Inr vs) \<Rightarrow> (w @ ws, Inr ((field, v) # vs))))"

text \<open>The location block: \<^verbatim>\<open>lat\<close> and \<^verbatim>\<open>lon\<close> of a nested dict, as they are.\<close>

definition location_fields :: "(string \<times> json) list \<Rightarrow> (string \<times> json) list" where
  "location_fields data =
     (case map_of data ''location'' of
        Some (JObj loc) \<Rightarrow>
          [(''latitude'', dict_get loc ''lat''), (''longitude'', dict_get loc ''lon'')]
      | _ \<Rightarrow> [(''latitude'', JNull), (''longitude'', JNull)])"

text \<open>
  \<^verbatim>\<open>sum(1 for v in validated.values() if v is not None)\<close>, and the score.
  \<^verbatim>\<open>valid_count / total_count\<close> is the double nearest to the quotient; the model keeps
  the quotient itself.
\<close>

fun valid_count :: "(string \<times> json) list \<Rightarrow> nat" where
  "valid_count [] = 0"
| "valid_count ((k, v) # rest) = (if v \<noteq> JNull then 1 else 0) + valid_count rest"

definition data_quality :: "(string \<times> json) list \<Rightarrow> rat" where
  "data_quality validated =
     (let total_count = length validated
      in if total_count > 0 then of_nat (valid_count validated) / of_nat total_count else 0)"

text \<open>
  \<^verbatim>\<open>_validate_sensor_data\<close>. A decoded payload that is not a dict has no \<^verbatim>\<open>get\<close>.
\<close>

definition validate_sensor_data ::
  "(string \<Rightarrow> pyfloat option) \<Rightarrow> json \<Rightarrow> log_record list \<times> (error + (string \<times> json) list)" where
  "validate_sensor_data str_to_float payload =
     (case payload of
        JObj data \<Rightarrow>
          (case validate_fields str_to_float data ranges of
             (w, Inl e) \<Rightarrow> (w, Inl e)
           | (w, Inr vs) \<Rightarrow>
               (let validated = vs @ location_fields data
                in (w, Inr (validated @
                      [(''data_quality'', JFloat (Fin (data_quality validated)))]))))
      | _ \<Rightarrow> ([], Inl AttributeError))"

section \<open>Persistent store\<close>

text \<open>
  The two tables of \<^verbatim>\<open>_init_database\<close>. A stored timestamp is a point on one time
  line, in seconds; SQLite compares the stored texts, which order the same way. Both
  tables are \<^verbatim>\<open>AUTOINCREMENT\<close>: a new row takes the successor of the largest id ever
  used, kept in \<open>sensor_seq\<close> and \<open>alert_seq\<close>.
\<close>

record sensor_row =
  row_id :: int
  row_timestamp :: int
  row_device_id :: string
  row_values :: "(string \<times> json) list"
  row_raw_json :: string
  row_processed :: bool

record alert_row =
  alert_id :: int
  alert_timestamp :: int
  alert_device_id :: string
  alert_type :: string
  severity :: string
  message :: string
  acknowledged :: bool

record database =
  sensor_data :: "sensor_row list"
  alerts :: "alert_row list"
  sensor_seq :: int
  alert_seq :: int

text \<open>A queued message, as \<^verbatim>\<open>_on_message\<close> builds it.\<close>

record queued_message =
  topic :: string
  payload :: string
  timestamp :: int
  qos :: nat

text \<open>
  An incoming transport message: its topic and the result of
  \<^verbatim>\<open>msg.payload.decode('utf-8')\<close>, \<open>None\<close> when the bytes are not UTF-8.
\<close>

record mqtt_message =
  msg_topic :: string
  msg_payload :: "string option"
  msg_qos :: nat

text \<open>The manager: configuration, store, queue, statistics and the log written so far.\<close>

record manager =
  db :: database
  data_queue :: "queued_message list"
  queue_maxsize :: nat
  data_retention_days :: nat
  messages_received :: nat
  messages_processed :: nat
  last_message_time :: "int option"
  connection_status :: string
  logged :: "log_record list"

text \<open>\<^verbatim>\<open>__init__\<close> with the default configuration.\<close>

definition init_database :: database where
  "init_database = \<lparr>sensor_data = [], alerts = [], sensor_seq = 0, alert_seq = 0\<rparr>"

definition new_manager :: manager where
  "new_manager =
     \<lparr>db = init_database, data_queue = [], queue_maxsize = 1000,
      data_retention_days = 30, messages_received = 0, messages_processed = 0,
      last_message_time = None, connection_status = ''disconnected'',
      logged = [DatabaseInitialized, ManagerInitialized]\<rparr>"

definition log_append :: "log_record list \<Rightarrow> manager \<Rightarrow> manager" where
  "log_append rs m = m\<lparr>logged := logged m @ rs\<rparr>"

text \<open>
  The validated reading with the three keys \<^verbatim>\<open>_process_sensor_message\<close> adds to it.
\<close>

record reading =
  sensor_fields :: "(string \<times> json) list"
  device_id :: string
  reading_timestamp :: int
  raw_json :: string

text \<open>
  What the store accepts as a statement parameter: no list, no dict, and an integer
  only within 64 bits.
\<close>

fun bindable :: "json \<Rightarrow> bool" where
  "bindable (JArr _) = False"
| "bindable (JObj _) = False"
| "bindable (JInt i) = (- (2 ^ 63) \<le> i \<and> i < 2 ^ 63)"
| "bindable _ = True"

definition value_columns :: "string list" where
  "value_columns =
     [''temperature'', ''humidity'', ''soil_moisture'', ''ph_level'', ''light_intensity'',
      ''latitude'', ''longitude'', ''battery_level'', ''signal_strength'', ''data_quality'']"

text \<open>
  \<^verbatim>\<open>_store_sensor_data\<close>. \<open>fail\<close> says that the storage call raises (connect, execute
  or commit); nothing is committed then. Every exception is logged and swallowed.
  \<open>row_values\<close> keeps the values as they are bound to the statement; the \<^verbatim>\<open>REAL\<close>
  columns then hold an integer as a float and not-a-number as \<^verbatim>\<open>NULL\<close>, and no property
  below reads a stored value that the column would change.
\<close>

definition store_sensor_data :: "bool \<Rightarrow> reading \<Rightarrow> manager \<Rightarrow> manager" where
  "store_sensor_data fail r m =
     (let vals = map (\<lambda>c. (c, dict_get (sensor_fields r) c)) value_columns in
      if fail \<or> \<not> list_all (\<lambda>(c, v). bindable v) vals
      then log_append [StoreSensorError] m
      else
        let d = db m;
            row = \<lparr>row_id = sensor_seq d + 1, row_timestamp = reading_timestamp r,
                   row_device_id = device_id r, row_values = vals,
                   row_raw_json = raw_json r, row_processed = False\<rparr>
        in m\<lparr>db := d\<lparr>sensor_data := sensor_data d @ [row],
                       sensor_seq := sensor_seq d + 1\<rparr>\<rparr>)"

text \<open>
  \<^verbatim>\<open>_store_alert\<close>. \<open>now\<close> is the store's clock at the insert
  (\<^verbatim>\<open>DEFAULT CURRENT_TIMESTAMP\<close>).
\<close>

definition store_alert ::
  "bool \<Rightarrow> int \<Rightarrow> string \<Rightarrow> string \<Rightarrow> string \<Rightarrow> string \<Rightarrow> manager \<Rightarrow> manager" where
  "store_alert fail now dev atype sev msg m =
     (if fail then log_append [StoreAlertError] m
      else
        let d = db m;
            row = \<lparr>alert_id = alert_seq d + 1, alert_timestamp = now,
                   alert_device_id = dev, alert_type = atype, severity = sev,
                   message = msg, acknowledged = False\<rparr>
        in log_append [AlertGenerated dev sev msg]
             (m\<lparr>db := d\<lparr>alerts := alerts d @ [row], alert_seq := alert_seq d + 1\<rparr>\<rparr>))"

section \<open>Alert engine\<close>

text \<open>
  The number a comparison with a numeric literal sees; \<open>None\<close> where Python raises
  \<^verbatim>\<open>TypeError\<close> (a string, a list, a dict).
\<close>

fun py_number :: "json \<Rightarrow> pyfloat option" where
  "py_number (JBool b) = Some (Fin (if b then 1 else 0))"
| "py_number (JInt i) = Some (Fin (of_int i))"
| "py_number (JFloat x) = Some x"
| "py_number _ = None"

text \<open>The degree sign (U+00B0) followed by C.\<close>

definition deg_C :: string where
  "deg_C = [char_of (176 :: nat), CHR ''C'']"

text \<open>
  The four rule blocks of \<^verbatim>\<open>_check_alert_conditions\<close>. \<open>fmt\<close> is Python's
  formatting of a value inside an f-string, taken as a parameter.
\<close>

definition temperature_alerts :: "(json \<Rightarrow> string) \<Rightarrow> json \<Rightarrow> error + (string \<times> string) list" where
  "temperature_alerts fmt temp =
     (if temp \<noteq> JNull then
        (case py_number temp of
           None \<Rightarrow> Inl TypeError
         | Some t \<Rightarrow>
             Inr (if py_lt t (Fin 5) then
                    [(''critical'', ''Critically low temperature: '' @ fmt temp @ deg_C)]
                  else if py_lt (Fin 40) t then
                    [(''critical'', ''Critically high temperature: '' @ fmt temp @ deg_C)]
                  else if py_lt t (Fin 10) \<or> py_lt (Fin 35) t then
                    [(''warning'', ''Temperature out of optimal range: '' @ fmt temp @ deg_C)]
                  else []))
      else Inr [])"

definition moisture_alerts :: "(json \<Rightarrow> string) \<Rightarrow> json \<Rightarrow> error + (string \<times> string) list" where
  "moisture_alerts fmt moisture =
     (if moisture \<noteq> JNull then
        (case py_number moisture of
           None \<Rightarrow> Inl TypeError
         | Some x \<Rightarrow>
             Inr (if py_lt x (Fin 20) then
                    [(''critical'', ''Critical low soil moisture: '' @ fmt moisture @ ''%'')]
                  else if py_lt x (Fin 30) then
                    [(''warning'', ''Low soil moisture: '' @ fmt moisture @ ''%'')]
                  else if py_lt (Fin 80) x then
                    [(''warning'', ''High soil moisture: '' @ fmt moisture @ ''%'')]
                  else []))
      else Inr [])"

definition ph_alerts :: "(json \<Rightarrow> string) \<Rightarrow> json \<Rightarrow> error + (string \<times> string) list" where
  "ph_alerts fmt ph =
     (if ph \<noteq> JNull then
        (case py_number ph of
           None \<Rightarrow> Inl TypeError
         | Some x \<Rightarrow>
             Inr (if py_lt x (Fin (11 / 2)) \<or> py_lt (Fin 8) x then
                    [(''warning'', ''pH level out of optimal range: '' @ fmt ph)]
                  else []))
      else Inr [])"

definition battery_alerts :: "(json \<Rightarrow> string) \<Rightarrow> json \<Rightarrow> error + (string \<times> string) list" where
  "battery_alerts fmt battery =
     (if battery \<noteq> JNull then
        (case py_number battery of
           None \<Rightarrow> Inl TypeError
         | Some x \<Rightarrow>
             Inr (if py_lt x (Fin 10) then
                    [(''critical'', ''Critical low battery: '' @ fmt battery @ ''%'')]
                  else if py_lt x (Fin 20) then
                    [(''warning'', ''Low battery: '' @ fmt battery @ ''%'')]
                  else []))
      else Inr [])"

text \<open>The list \<^verbatim>\<open>alerts\<close> before the storing loop; an exception leaves before it.\<close>

definition alert_list :: "(json \<Rightarrow> string) \<Rightarrow> (string \<times> json) list \<Rightarrow> error + (string \<times> string) list" where
  "alert_list fmt sd =
     (case temperature_alerts fmt (dict_get sd ''temperature'') of
        Inl e \<Rightarrow> Inl e
      | Inr a1 \<Rightarrow>
     (case moisture_alerts fmt (dict_get sd ''soil_moisture'') of
        Inl e \<Rightarrow> Inl e
      | Inr a2 \<Rightarrow>
     (case ph_alerts fmt (dict_get sd ''ph_level'') of
        Inl e \<Rightarrow> Inl e
      | Inr a3 \<Rightarrow>
     (case battery_alerts fmt (dict_get sd ''battery_level'') of
        Inl e \<Rightarrow> Inl e
      | Inr a4 \<Rightarrow> Inr (a1 @ a2 @ a3 @ a4)))))"

text \<open>
  The storing loop. \<open>env k\<close> is the outcome of the \<open>k\<close>-th storage call: whether it
  raises, and the store's clock at the call.
\<close>

fun store_alerts ::
  "(nat \<Rightarrow> bool \<times> int) \<Rightarrow> nat \<Rightarrow> string \<Rightarrow> (string \<times> string) list \<Rightarrow> manager \<Rightarrow> manager" where
  "store_alerts env k dev [] m = m"
| "store_alerts env k dev ((sev, msg) # as) m =
     store_alerts env (Suc k) dev as
       (store_alert (fst (env k)) (snd (env k)) dev ''sensor_threshold'' sev msg m)"

definition check_alert_conditions ::
  "(json \<Rightarrow> string) \<Rightarrow> (nat \<Rightarrow> bool \<times> int) \<Rightarrow> reading \<Rightarrow> manager \<Rightarrow> error + manager" where
  "check_alert_conditions fmt env r m =
     (case alert_list fmt (sensor_fields r) of
        Inl e \<Rightarrow> Inl e
      | Inr as \<Rightarrow> Inr (store_alerts env 0 (device_id r) as m))"

section \<open>Ingestion queue and message processor\<close>

text \<open>\<^verbatim>\<open>Queue.full()\<close>: a queue of size 0 is unbounded.\<close>

definition queue_full :: "manager \<Rightarrow> bool" where
  "queue_full m \<longleftrightarrow> 0 < queue_maxsize m \<and> queue_maxsize m \<le> length (data_queue m)"

text \<open>
  \<^verbatim>\<open>_on_message\<close>. \<open>now\<close> and \<open>stamp\<close> are the two readings of the clock. The callback
  is the only producer, so the queue it found not full is still not full at \<^verbatim>\<open>put\<close>.
\<close>

definition on_message :: "int \<Rightarrow> int \<Rightarrow> mqtt_message \<Rightarrow> manager \<Rightarrow> manager" where
  "on_message now stamp msg m =
     (case msg_payload msg of
        None \<Rightarrow> log_append [OnMessageError UnicodeDecodeError] m
      | Some p \<Rightarrow>
          let m1 = m\<lparr>messages_received := messages_received m + 1,
                     last_message_time := Some now\<rparr>
          in if \<not> queue_full m1
             then m1\<lparr>data_queue := data_queue m1 @
                        [\<lparr>topic = msg_topic msg, payload = p, timestamp = stamp,
                          qos = msg_qos msg\<rparr>]\<rparr>
             else log_append [QueueFull] m1)"

text \<open>\<^verbatim>\<open>str.split(sep)\<close> for a one-character separator.\<close>

fun split_on :: "char \<Rightarrow> string \<Rightarrow> string list" where
  "split_on c [] = [[]]"
| "split_on c (x # xs) =
     (if x = c then [] # split_on c xs
      else (case split_on c xs of [] \<Rightarrow> [[x]] | p # ps \<Rightarrow> (x # p) # ps))"

text \<open>
  The Python builtins the processor calls and the model does not define:
  \<^verbatim>\<open>json.loads\<close> (\<open>None\<close> for \<^verbatim>\<open>JSONDecodeError\<close>), \<^verbatim>\<open>float\<close> on a string and the
  formatting of a value in an f-string.
\<close>

record builtins =
  py_json_loads :: "string \<Rightarrow> json option"
  py_str_to_float :: "string \<Rightarrow> pyfloat option"
  py_format :: "json \<Rightarrow> string"

text \<open>
  \<^verbatim>\<open>_process_sensor_message\<close>. \<open>env 0\<close> is the outcome of the reading's insert,
  \<open>env (Suc k)\<close> of the \<open>k\<close>-th alert's.
\<close>

definition process_sensor_message ::
  "builtins \<Rightarrow> (nat \<Rightarrow> bool \<times> int) \<Rightarrow> queued_message \<Rightarrow> manager \<Rightarrow> manager" where
  "process_sensor_message py env msg m =
     (case py_json_loads py (payload msg) of
        None \<Rightarrow> log_append [InvalidJSON] m
      | Some data \<Rightarrow>
          let topic_parts = split_on CHR ''/'' (topic msg);
              dev = (if length topic_parts > 2 then topic_parts ! 2 else ''unknown'')
          in (case validate_sensor_data (py_str_to_float py) data of
                (w, Inl e) \<Rightarrow> log_append (w @ [ProcessingError e]) m
              | (w, Inr validated) \<Rightarrow>
                  let r = \<lparr>sensor_fields = validated, device_id = dev,
                           reading_timestamp = timestamp msg, raw_json = payload msg\<rparr>;
                      m1 = store_sensor_data (fst (env 0)) r (log_append w m)
                  in (case check_alert_conditions (py_format py) (\<lambda>k. env (Suc k)) r m1 of
                        Inl e \<Rightarrow> log_append [ProcessingError e] m1
                      | Inr m2 \<Rightarrow> m2\<lparr>messages_processed := messages_processed m2 + 1\<rparr>)))"

text \<open>
  The loop body run over a batch, each message with the outcomes of its own storage
  calls.
\<close>

fun process_batch ::
  "builtins \<Rightarrow> ((nat \<Rightarrow> bool \<times> int) \<times> queued_message) list \<Rightarrow> manager \<Rightarrow> manager" where
  "process_batch py [] m = m"
| "process_batch py ((env, msg) # rest) m =
     process_batch py rest (process_sensor_message py env msg m)"

text \<open>
  \<^verbatim>\<open>while not self.data_queue.empty(): ... get_nowait() ...\<close> of
  \<^verbatim>\<open>_data_processing_loop\<close>, with no message arriving meanwhile: the head is taken
  off the queue and processed, until the queue is empty. \<open>envs k\<close> belongs to the
  \<open>k\<close>-th message taken.
\<close>

fun process_queued ::
  "builtins \<Rightarrow> (nat \<Rightarrow> nat \<Rightarrow> bool \<times> int) \<Rightarrow> nat \<Rightarrow> queued_message list \<Rightarrow> manager \<Rightarrow> manager" where
  "process_queued py envs k [] m = m"
| "process_queued py envs k (msg # rest) m =
     process_queued py envs (Suc k) rest
       (process_sensor_message py (envs k) msg (m\<lparr>data_queue := rest\<rparr>))"

definition drain_queue :: "builtins \<Rightarrow> (nat \<Rightarrow> nat \<Rightarrow> bool \<times> int) \<Rightarrow> manager \<Rightarrow> manager" where
  "drain_queue py envs m = process_queued py envs 0 (data_queue m) m"

section \<open>Retention sweeper\<close>

text \<open>
  \<^verbatim>\<open>_cleanup_old_data\<close>. \<open>now\<close> is the store's clock; the cutoff is
  \<^verbatim>\<open>datetime('now', '-N days')\<close>. \<^verbatim>\<open>cursor.rowcount\<close> is read after the second
  \<^verbatim>\<open>DELETE\<close> and is the number of rows that statement removed.
\<close>

definition cutoff :: "int \<Rightarrow> nat \<Rightarrow> int" where
  "cutoff now days = now - int days * 86400"

definition cleanup_old_data :: "bool \<Rightarrow> int \<Rightarrow> manager \<Rightarrow> manager" where
  "cleanup_old_data fail now m =
     (if fail then log_append [CleanupError] m
      else
        let retention_days = data_retention_days m;
            d = db m;
            kept_rows = filter (\<lambda>r. \<not> row_timestamp r < cutoff now retention_days) (sensor_data d);
            kept_alerts = filter (\<lambda>a. \<not> alert_timestamp a < cutoff now retention_days) (alerts d);
            deleted = length (alerts d) - length kept_alerts;
            m1 = m\<lparr>db := d\<lparr>sensor_data := kept_rows, alerts := kept_alerts\<rparr>\<rparr>
        in if deleted > 0 then log_append [CleanedUp deleted] m1 else m1)"

section \<open>Queries and acknowledgement\<close>

text \<open>
  \<^verbatim>\<open>ORDER BY timestamp DESC\<close>. SQLite leaves the order of rows with equal timestamps
  open (a scan of the timestamp index returns them newest id first); the model keeps
  them in table order, and no property below depends on the order among them.
\<close>

definition newest_first :: "('a \<Rightarrow> int) \<Rightarrow> 'a list \<Rightarrow> 'a list" where
  "newest_first ts rows = sort_key (\<lambda>r. - ts r) rows"

text \<open>The body of \<^verbatim>\<open>get_latest_data\<close> inside \<^verbatim>\<open>try\<close>; \<open>fail\<close>: the storage call raises.\<close>

definition query_latest :: "bool \<Rightarrow> string option \<Rightarrow> database \<Rightarrow> error + sensor_row list" where
  "query_latest fail dev d =
     (if fail then Inl StorageError
      else
        (case dev of
           Some i \<Rightarrow>
             if i \<noteq> [] then
               Inr (take 10 (newest_first row_timestamp
                      (filter (\<lambda>r. row_device_id r = i) (sensor_data d))))
             else Inr (take 50 (newest_first row_timestamp (sensor_data d)))
         | None \<Rightarrow> Inr (take 50 (newest_first row_timestamp (sensor_data d)))))"

definition get_latest_data :: "bool \<Rightarrow> string option \<Rightarrow> manager \<Rightarrow> sensor_row list \<times> manager" where
  "get_latest_data fail dev m =
     (case query_latest fail dev (db m) of
        Inr rows \<Rightarrow> (rows, m)
      | Inl e \<Rightarrow> ([], log_append [LatestDataError] m))"

definition query_active_alerts :: "bool \<Rightarrow> database \<Rightarrow> error + alert_row list" where
  "query_active_alerts fail d =
     (if fail then Inl StorageError
      else Inr (take 20 (newest_first alert_timestamp
                  (filter (\<lambda>a. \<not> acknowledged a) (alerts d)))))"

definition get_active_alerts :: "bool \<Rightarrow> manager \<Rightarrow> alert_row list \<times> manager" where
  "get_active_alerts fail m =
     (case query_active_alerts fail (db m) of
        Inr rows \<Rightarrow> (rows, m)
      | Inl e \<Rightarrow> ([], log_append [ActiveAlertsError] m))"

text \<open>\<^verbatim>\<open>acknowledge_alert\<close>.\<close>

definition acknowledge_alert :: "bool \<Rightarrow> int \<Rightarrow> manager \<Rightarrow> manager" where
  "acknowledge_alert fail i m =
     (if fail then log_append [AcknowledgeError] m
      else
        let d = db m
        in log_append [AlertAcknowledged i]
             (m\<lparr>db := d\<lparr>alerts :=
                 map (\<lambda>a. if alert_id a = i then a\<lparr>acknowledged := True\<rparr> else a) (alerts d)\<rparr>\<rparr>))"

section \<open>Notions the properties are stated with\<close>

text \<open>
  A JSON number (an integer or a finite float) inside an inclusive range, and its
  value.
\<close>

fun number_in :: "int \<Rightarrow> int \<Rightarrow> json \<Rightarrow> bool" where
  "number_in lo hi (JInt i) = (lo \<le> i \<and> i \<le> hi)"
| "number_in lo hi (JFloat (Fin q)) = (of_int lo \<le> q \<and> q \<le> of_int hi)"
| "number_in lo hi _ = False"

fun number_value :: "json \<Rightarrow> rat" where
  "number_value (JInt i) = of_int i"
| "number_value (JFloat (Fin q)) = q"
| "number_value _ = 0"

text \<open>The validated entry of a field whose input passed: the input's value, as a float.\<close>

definition accepted :: "(string \<times> json) list \<Rightarrow> string \<Rightarrow> string \<times> json" where
  "accepted d f = (f, JFloat (Fin (number_value (dict_get d f))))"

text \<open>The state apart from the log, and a log put in front of a state's log.\<close>

definition unlogged :: "manager \<Rightarrow> manager" where
  "unlogged m = m\<lparr>logged := []\<rparr>"

definition log_prepend :: "log_record list \<Rightarrow> manager \<Rightarrow> manager" where
  "log_prepend l m = m\<lparr>logged := l @ logged m\<rparr>"


text \<open>
  The operations that change a running manager, and a run of them in order. The two
  queries leave their log record behind.
\<close>

datatype operation =
    OnMessage int int mqtt_message
  | DrainQueue builtins "nat \<Rightarrow> nat \<Rightarrow> bool \<times> int"
  | CleanupOldData bool int
  | AcknowledgeAlert bool int
  | GetLatestData bool "string option"
  | GetActiveAlerts bool

fun apply_operation :: "operation \<Rightarrow> manager \<Rightarrow> manager" where
  "apply_operation (OnMessage now stamp msg) m = on_message now stamp msg m"
| "apply_operation (DrainQueue py envs) m = drain_queue py envs m"
| "apply_operation (CleanupOldData fail now) m = cleanup_old_data fail now m"
| "apply_operation (AcknowledgeAlert fail i) m = acknowledge_alert fail i m"
| "apply_operation (GetLatestData fail dev) m = snd (get_latest_data fail dev m)"
| "apply_operation (GetActiveAlerts fail) m = snd (get_active_alerts fail m)"

definition run :: "operation list \<Rightarrow> manager \<Rightarrow> manager" where
  "run ops m = fold apply_operation ops m"

text \<open>
  The invariant of \<^verbatim>\<open>AUTOINCREMENT\<close>: no alert carries an id beyond the largest one
  handed out.
\<close>

definition alert_ids_issued :: "database \<Rightarrow> bool" where
  "alert_ids_issued d \<longleftrightarrow> list_all (\<lambda>a. alert_id a \<le> alert_seq d) (alerts d)"

text \<open>
  The alerts with id \<open>i\<close> are acknowledged and \<open>i\<close> has been handed out: what
  acknowledging \<open>i\<close> establishes and every operation keeps.
\<close>

definition acknowledged_for_good :: "int \<Rightarrow> database \<Rightarrow> bool" where
  "acknowledged_for_good i d \<longleftrightarrow>
     alert_ids_issued d \<and> i \<le> alert_seq d \<and>
     list_all (\<lambda>a. alert_id a \<noteq> i \<or> acknowledged a) (alerts d)"

text \<open>
  What the validator leaves under a ranged field: null or a float. And the rows the
  storing loop of the alert engine adds for a list of alerts: one per alert whose
  storage call does not raise, with the next id, the store's clock at the call, the
  reading's device and the alert's severity and message.
\<close>

fun reading_value :: "json \<Rightarrow> bool" where
  "reading_value JNull = True"
| "reading_value (JFloat x) = True"
| "reading_value _ = False"

fun alert_rows ::
  "(nat \<Rightarrow> bool \<times> int) \<Rightarrow> nat \<Rightarrow> int \<Rightarrow> string \<Rightarrow> (string \<times> string) list \<Rightarrow> alert_row list" where
  "alert_rows env k seq dev [] = []"
| "alert_rows env k seq dev ((sev, msg) # as) =
     (if fst (env k) then alert_rows env (Suc k) seq dev as
      else \<lparr>alert_id = seq + 1, alert_timestamp = snd (env k), alert_device_id = dev,
             alert_type = ''sensor_threshold'', severity = sev, message = msg,
             acknowledged = False\<rparr> # alert_rows env (Suc k) (seq + 1) dev as)"

subsection \<open>Sample inputs\<close>

definition sample_fields :: "(string \<times> json) list" where
  "sample_fields =
     [(''temperature'', JInt 25), (''humidity'', JInt 50), (''soil_moisture'', JInt 40),
      (''ph_level'', JFloat (Fin (13 / 2))), (''light_intensity'', JInt 500),
      (''battery_level'', JInt 80), (''signal_strength'', JInt (- 60))]"

definition sample_location :: "(string \<times> json) list" where
  "sample_location = [(''lat'', JFloat (Fin (57 / 2))), (''lon'', JFloat (Fin (771 / 10)))]"

definition hot_fields :: "(string \<times> json) list" where
  "hot_fields =
     [(''temperature'', JInt 100), (''humidity'', JInt 50), (''soil_moisture'', JInt 40),
      (''ph_level'', JFloat (Fin (13 / 2))), (''light_intensity'', JInt 500),
      (''battery_level'', JInt 80), (''signal_strength'', JInt (- 60))]"

text \<open>
  A stand-in for the builtins: the only payload that parses is \<^verbatim>\<open>{"temperature": 4}\<close>,
  no string is a float, and a float prints with one decimal when it is 4 or 25.
\<close>

definition sample_format :: "json \<Rightarrow> string" where
  "sample_format v =
     (if v = JFloat (Fin 4) then ''4.0'' else if v = JFloat (Fin 25) then ''25.0'' else ''?'')"

definition sample_builtins :: builtins where
  "sample_builtins =
     \<lparr>py_json_loads =
        (\<lambda>s. if s = ''{\"temperature\": 4}'' then Some (JObj [(''temperature'', JInt 4)])
              else None),
      py_str_to_float = (\<lambda>s. None),
      py_format = sample_format\<rparr>"

definition calm :: "nat \<Rightarrow> bool \<times> int" where
  "calm k = (False, 1000)"

definition good_message :: queued_message where
  "good_message =
     \<lparr>topic = ''agri/sensors/dev1/data'', payload = ''{\"temperature\": 4}'',
      timestamp = 990, qos = 0\<rparr>"

definition bad_message :: queued_message where
  "bad_message =
     \<lparr>topic = ''agri/sensors/dev2/data'', payload = ''not json'', timestamp = 995, qos = 0\<rparr>"

definition sample_alert :: "int \<Rightarrow> int \<Rightarrow> alert_row" where
  "sample_alert i t =
     \<lparr>alert_id = i, alert_timestamp = t, alert_device_id = ''dev1'',
      alert_type = ''sensor_threshold'', severity = ''warning'',
      message = ''Low battery: 15.0%'', acknowledged = False\<rparr>"

definition sample_row :: "int \<Rightarrow> int \<Rightarrow> sensor_row" where
  "sample_row i t =
     \<lparr>row_id = i, row_timestamp = t, row_device_id = ''dev1'', row_values = [],
      row_raw_json = ''{}'', row_processed = False\<rparr>"

definition cold_reading :: reading where
  "cold_reading =
     \<lparr>sensor_fields = [(''temperature'', JFloat (Fin 4))], device_id = ''dev1'',
      reading_timestamp = 990, raw_json = ''{\"temperature\": 4}''\<rparr>"

definition huge_payload :: "(string \<times> json) list" where
  "huge_payload =
     [(''temperature'', JInt (2 ^ 1024)),
      (''location'', JObj [(''lat'', JFloat (Fin (57 / 2))), (''lon'', JFloat (Fin (771 / 10)))])]"

definition sample_store :: manager where
  "sample_store =
     new_manager\<lparr>db :=
       \<lparr>sensor_data = [sample_row 1 (9 * 86400), sample_row 2 (11 * 86400)],
        alerts = [sample_alert 1 (9 * 86400), sample_alert 2 (11 * 86400)],
        sensor_seq = 2, alert_seq = 2\<rparr>\<rparr>"

definition old_reading_store :: manager where
  "old_reading_store =
     new_manager\<lparr>db :=
       \<lparr>sensor_data = [sample_row 1 (9 * 86400)], alerts = [],
        sensor_seq = 1, alert_seq = 0\<rparr>\<rparr>"


definition late_message :: mqtt_message where
  "late_message =
     \<lparr>msg_topic = ''agri/sensors/dev3/data'', msg_payload = Some ''{}'', msg_qos = 0\<rparr>"

section \<open>Validator: properties\<close>

lemma int_to_float_small: "\<bar>i\<bar> < 2 ^ 53 \<Longrightarrow> int_to_float i = Inr (Fin (of_int i))"
  by (simp add: int_to_float_def Let_def nat_less_iff)

lemma small_range: "(f, lo, hi) \<in> set ranges \<Longrightarrow> - (2 ^ 53) < lo \<and> hi < 2 ^ 53"
  by (auto simp: ranges_def)

lemma distinct_ranges: "distinct (map fst ranges)"
  by (simp add: ranges_def)

lemma validate_field_number:
  assumes "number_in lo hi v" "dict_get d f = v" "- (2 ^ 53) < lo" "hi < 2 ^ 53"
  shows "validate_field s d f lo hi = ([], Inr (JFloat (Fin (number_value v))))"
  using assms
  by (cases "(lo, hi, v)" rule: number_in.cases)
     (auto simp: validate_field_def Let_def in_range_def int_to_float_small)

lemma validate_field_out:
  assumes "dict_get d f \<noteq> JNull" "py_float s (dict_get d f) = Inr x" "\<not> in_range lo hi x"
  shows "validate_field s d f lo hi = ([ValueOutOfRange f x], Inr JNull)"
  using assms by (simp add: validate_field_def Let_def)

lemma validate_fields_all:
  assumes "\<forall>r \<in> set rs. number_in (fst (snd r)) (snd (snd r)) (dict_get d (fst r))
              \<and> - (2 ^ 53) < fst (snd r) \<and> snd (snd r) < 2 ^ 53"
  shows "validate_fields s d rs = ([], Inr (map (accepted d) (map fst rs)))"
  using assms
proof (induction rs)
  case Nil
  then show ?case by simp
next
  case (Cons r rs)
  obtain f lo hi where r: "r = (f, lo, hi)" by (cases r) auto
  from Cons.prems r have "validate_field s d f lo hi = ([], Inr (JFloat (Fin (number_value (dict_get d f)))))"
    by (intro validate_field_number) auto
  moreover from Cons have "validate_fields s d rs = ([], Inr (map (accepted d) (map fst rs)))"
    by simp
  ultimately show ?case by (simp add: r accepted_def)
qed

lemma validate_fields_one_out:
  assumes "distinct (map fst rs)" "(f, lo, hi) \<in> set rs"
    and "dict_get d f \<noteq> JNull" "py_float s (dict_get d f) = Inr x" "\<not> in_range lo hi x"
    and "\<forall>r \<in> set rs. fst r \<noteq> f \<longrightarrow> number_in (fst (snd r)) (snd (snd r)) (dict_get d (fst r))"
    and "\<forall>r \<in> set rs. - (2 ^ 53) < fst (snd r) \<and> snd (snd r) < 2 ^ 53"
  shows "validate_fields s d rs =
           ([ValueOutOfRange f x],
            Inr (map (\<lambda>g. if g = f then (g, JNull) else accepted d g) (map fst rs)))"
  using assms(1,2,6,7)
proof (induction rs)
  case Nil
  then show ?case by simp
next
  case (Cons r rs)
  obtain g l h where r: "r = (g, l, h)" by (cases r) auto
  show ?case
  proof (cases "g = f")
    case True
    with Cons.prems r have eq: "l = lo" "h = hi" and notin: "f \<notin> fst ` set rs"
      by (auto simp: rev_image_eqI)
    have rest: "\<forall>r \<in> set rs. number_in (fst (snd r)) (snd (snd r)) (dict_get d (fst r))
              \<and> - (2 ^ 53) < fst (snd r) \<and> snd (snd r) < 2 ^ 53"
      using Cons.prems(3,4) notin by (auto simp: rev_image_eqI)
    have "map (\<lambda>g. if g = f then (g, JNull) else accepted d g) (map fst rs)
        = map (accepted d) (map fst rs)"
      using notin by (auto simp: rev_image_eqI)
    then show ?thesis
      using validate_fields_all[OF rest, of s] validate_field_out[OF assms(3,4,5)] True eq r
      by simp
  next
    case False
    with Cons.prems r have mem: "(f, lo, hi) \<in> set rs" and dist: "distinct (map fst rs)" by auto
    have "validate_field s d g l h = ([], Inr (JFloat (Fin (number_value (dict_get d g)))))"
      using Cons.prems(3,4) r False by (intro validate_field_number) auto
    moreover have "validate_fields s d rs =
           ([ValueOutOfRange f x],
            Inr (map (\<lambda>g. if g = f then (g, JNull) else accepted d g) (map fst rs)))"
      using Cons.IH[OF dist mem] Cons.prems(3,4) by simp
    ultimately show ?thesis using r False by (simp add: accepted_def)
  qed
qed

lemma valid_count_append: "valid_count (xs @ ys) = valid_count xs + valid_count ys"
  by (induction xs) auto

lemma count_all: "valid_count (map (accepted d) fs) = length fs"
  by (induction fs) (auto simp: accepted_def)

lemma count_absent:
  "f \<notin> set fs \<Longrightarrow>
   valid_count (map (\<lambda>g. if g = f then (g, JNull) else accepted d g) fs) = length fs"
  by (induction fs) (auto simp: accepted_def)

lemma count_one_out:
  "distinct fs \<Longrightarrow> f \<in> set fs \<Longrightarrow>
   valid_count (map (\<lambda>g. if g = f then (g, JNull) else accepted d g) fs) = length fs - 1"
proof (induction fs)
  case Nil
  then show ?case by simp
next
  case (Cons a fs)
  show ?case
  proof (cases "a = f")
    case True
    with Cons.prems have "f \<notin> set fs" by auto
    then show ?thesis using True by (simp add: count_absent)
  next
    case False
    with Cons have "valid_count (map (\<lambda>g. if g = f then (g, JNull) else accepted d g) fs)
     = length fs - 1" and "fs \<noteq> []" by auto
    then show ?thesis using False by (cases fs) (auto simp: accepted_def)
  qed
qed

lemma length_ranges: "length ranges = 7"
  by (simp add: ranges_def)

text \<open>
  Claim C1, as amended. When each of the seven ranged fields holds a JSON number inside
  its inclusive range and the nested location supplies a non-null \<open>lat\<close> and \<open>lon\<close>,
  the validator logs nothing, returns every ranged value unchanged (as a float), copies
  \<open>lat\<close> and \<open>lon\<close>, and scores 1. The score divides by the nine validated entries:
  the seven ranged fields, latitude and longitude.
\<close>

theorem validate_all_in_range:
  assumes "\<forall>r \<in> set ranges. number_in (fst (snd r)) (snd (snd r)) (dict_get data (fst r))"
    and "map_of data ''location'' = Some (JObj loc)"
    and "dict_get loc ''lat'' \<noteq> JNull" and "dict_get loc ''lon'' \<noteq> JNull"
  shows "validate_sensor_data s2f (JObj data) =
           ([], Inr (map (accepted data) (map fst ranges) @
                     [(''latitude'', dict_get loc ''lat''), (''longitude'', dict_get loc ''lon''),
                      (''data_quality'', JFloat (Fin 1))]))"
proof -
  have "\<forall>r \<in> set ranges. number_in (fst (snd r)) (snd (snd r)) (dict_get data (fst r))
              \<and> - (2 ^ 53) < fst (snd r) \<and> snd (snd r) < 2 ^ 53"
    using assms(1) small_range by auto
  then have vf: "validate_fields s2f data ranges = ([], Inr (map (accepted data) (map fst ranges)))"
    by (rule validate_fields_all)
  have q: "data_quality (map (accepted data) (map fst ranges) @
             [(''latitude'', dict_get loc ''lat''), (''longitude'', dict_get loc ''lon'')]) = 1"
    using assms(3,4) count_all[of data "map fst ranges"]
    by (simp add: data_quality_def valid_count_append length_ranges)
  show ?thesis
    using vf q assms(2) by (simp add: validate_sensor_data_def location_fields_def)
qed

text \<open>
  Claim C6, as amended. When one ranged field holds a value that \<^verbatim>\<open>float\<close> converts
  and that lies outside the field's range, the other six hold JSON numbers inside
  theirs, and the location supplies a non-null \<open>lat\<close> and \<open>lon\<close>, the validator logs
  one warning, nulls that field alone, returns the other values unchanged and scores
  8/9: the count runs over nine entries.
\<close>

theorem validate_one_out_of_range:
  assumes "(f, lo, hi) \<in> set ranges"
    and "dict_get data f \<noteq> JNull" and "py_float s2f (dict_get data f) = Inr x"
    and "\<not> in_range lo hi x"
    and "\<forall>r \<in> set ranges. fst r \<noteq> f \<longrightarrow>
           number_in (fst (snd r)) (snd (snd r)) (dict_get data (fst r))"
    and "map_of data ''location'' = Some (JObj loc)"
    and "dict_get loc ''lat'' \<noteq> JNull" and "dict_get loc ''lon'' \<noteq> JNull"
  shows "validate_sensor_data s2f (JObj data) =
           ([ValueOutOfRange f x],
            Inr (map (\<lambda>g. if g = f then (g, JNull) else accepted data g) (map fst ranges) @
                 [(''latitude'', dict_get loc ''lat''), (''longitude'', dict_get loc ''lon''),
                  (''data_quality'', JFloat (Fin (8 / 9)))]))"
proof -
  have small: "\<forall>r \<in> set ranges. - (2 ^ 53) < fst (snd r) \<and> snd (snd r) < 2 ^ 53"
    using small_range by auto
  have vf: "validate_fields s2f data ranges =
           ([ValueOutOfRange f x],
            Inr (map (\<lambda>g. if g = f then (g, JNull) else accepted data g) (map fst ranges)))"
    by (rule validate_fields_one_out[OF distinct_ranges assms(1,2,3,4,5) small])
  have fin: "f \<in> set (map fst ranges)" using assms(1) by force
  have q: "data_quality (map (\<lambda>g. if g = f then (g, JNull) else accepted data g) (map fst ranges) @
             [(''latitude'', dict_get loc ''lat''), (''longitude'', dict_get loc ''lon'')]) = 8 / 9"
    using assms(7,8) count_one_out[OF distinct_ranges fin, of data]
    by (simp add: data_quality_def valid_count_append length_ranges)
  show ?thesis
    using vf q assms(6) by (simp add: validate_sensor_data_def location_fields_def)
qed


lemma py_float_errors: "py_float s v = Inl e \<Longrightarrow> e = TypeError \<or> e = ValueError \<or> e = OverflowError"
  by (cases v) (auto simp: int_to_float_def Let_def split: if_splits option.splits)

lemma validate_field_returns:
  "py_float s (dict_get d f) \<noteq> Inl OverflowError \<Longrightarrow> \<exists>w v. validate_field s d f lo hi = (w, Inr v)"
  using py_float_errors[of s "dict_get d f"]
  by (auto simp: validate_field_def Let_def split: sum.splits)

lemma validate_fields_returns:
  "\<forall>r \<in> set rs. py_float s (dict_get d (fst r)) \<noteq> Inl OverflowError \<Longrightarrow>
   \<exists>w vs. validate_fields s d rs = (w, Inr vs) \<and> length vs = length rs"
proof (induction rs)
  case Nil
  then show ?case by simp
next
  case (Cons r rs)
  obtain f lo hi where r: "r = (f, lo, hi)" by (cases r) auto
  from Cons.prems r obtain w v where 1: "validate_field s d f lo hi = (w, Inr v)"
    using validate_field_returns[of s d f lo hi] by auto
  from Cons obtain ws vs where 2: "validate_fields s d rs = (ws, Inr vs)" "length vs = length rs"
    by auto
  show ?case using 1 2 r by simp
qed

text \<open>
  The location block, when the loop over the ranges completes: for a payload whose
  \<open>location\<close> is a nested dict, and whose ranged fields hold no integer too large for
  \<^verbatim>\<open>float\<close>, the validator returns, and its latitude and longitude are \<open>lat\<close> and
  \<open>lon\<close> of that dict exactly as they are, whatever JSON value they hold. Each of the
  two adds one to the count of valid entries when it is not null, and the count is
  divided by the nine entries.
\<close>

lemma validate_copies_location:
  assumes "map_of data ''location'' = Some (JObj loc)"
    and "\<forall>r \<in> set ranges. py_float s2f (dict_get data (fst r)) \<noteq> Inl OverflowError"
  shows "\<exists>w vs. validate_fields s2f data ranges = (w, Inr vs) \<and>
           validate_sensor_data s2f (JObj data) =
             (w, Inr (vs @
                [(''latitude'', dict_get loc ''lat''), (''longitude'', dict_get loc ''lon''),
                 (''data_quality'',
                   JFloat (Fin (of_nat (valid_count vs
                                  + (if dict_get loc ''lat'' \<noteq> JNull then 1 else 0)
                                  + (if dict_get loc ''lon'' \<noteq> JNull then 1 else 0)) / 9)))]))"
proof -
  from validate_fields_returns[OF assms(2)] obtain w vs
    where vf: "validate_fields s2f data ranges = (w, Inr vs)" and len: "length vs = 7"
    by (auto simp: length_ranges)
  have "data_quality (vs @ [(''latitude'', dict_get loc ''lat''), (''longitude'', dict_get loc ''lon'')])
      = of_nat (valid_count vs + (if dict_get loc ''lat'' \<noteq> JNull then 1 else 0)
                  + (if dict_get loc ''lon'' \<noteq> JNull then 1 else 0)) / 9"
    by (simp add: data_quality_def valid_count_append len)
  then show ?thesis
    using vf assms(1) by (simp add: validate_sensor_data_def location_fields_def)
qed


text \<open>Claim C1: the amended statement at a payload with all nine entries.\<close>

theorem validate_all_in_range_witness:
  "validate_sensor_data (\<lambda>s. None)
     (JObj (sample_fields @ [(''location'', JObj sample_location)])) =
   ([], Inr [(''temperature'', JFloat (Fin 25)), (''humidity'', JFloat (Fin 50)),
             (''soil_moisture'', JFloat (Fin 40)), (''ph_level'', JFloat (Fin (13 / 2))),
             (''light_intensity'', JFloat (Fin 500)), (''battery_level'', JFloat (Fin 80)),
             (''signal_strength'', JFloat (Fin (- 60))),
             (''latitude'', JFloat (Fin (57 / 2))), (''longitude'', JFloat (Fin (771 / 10))),
             (''data_quality'', JFloat (Fin 1))])"
proof -
  let ?d = "sample_fields @ [(''location'', JObj sample_location)]"
  have h1: "\<forall>r \<in> set ranges. number_in (fst (snd r)) (snd (snd r)) (dict_get ?d (fst r))"
    by (simp add: ranges_def sample_fields_def dict_get_def)
  have h2: "map_of ?d ''location'' = Some (JObj sample_location)"
    by (simp add: sample_fields_def)
  have h3: "dict_get sample_location ''lat'' \<noteq> JNull"
    by (simp add: sample_location_def dict_get_def)
  have h4: "dict_get sample_location ''lon'' \<noteq> JNull"
    by (simp add: sample_location_def dict_get_def)
  show ?thesis
    using validate_all_in_range[OF h1 h2 h3 h4, of "\<lambda>s. None"]
    by (simp add: ranges_def accepted_def sample_fields_def sample_location_def dict_get_def)
qed

text \<open>
  Claim C1 as stated fails: with all seven ranged fields inside their ranges and no
  location in the payload, latitude and longitude are null entries of the validated
  reading and the score is 7/9, not 1.
\<close>

theorem validate_without_location_counterexample:
  "number_in (- 50) 60 (dict_get sample_fields ''temperature'') \<and>
   number_in 0 100 (dict_get sample_fields ''humidity'') \<and>
   number_in 0 100 (dict_get sample_fields ''soil_moisture'') \<and>
   number_in 0 14 (dict_get sample_fields ''ph_level'') \<and>
   number_in 0 2000 (dict_get sample_fields ''light_intensity'') \<and>
   number_in 0 100 (dict_get sample_fields ''battery_level'') \<and>
   number_in (- 120) 0 (dict_get sample_fields ''signal_strength'') \<and>
   validate_sensor_data (\<lambda>s. None) (JObj sample_fields) =
     ([], Inr [(''temperature'', JFloat (Fin 25)), (''humidity'', JFloat (Fin 50)),
               (''soil_moisture'', JFloat (Fin 40)), (''ph_level'', JFloat (Fin (13 / 2))),
               (''light_intensity'', JFloat (Fin 500)), (''battery_level'', JFloat (Fin 80)),
               (''signal_strength'', JFloat (Fin (- 60))),
               (''latitude'', JNull), (''longitude'', JNull),
               (''data_quality'', JFloat (Fin (7 / 9)))]) \<and>
   (7 / 9 :: rat) \<noteq> 1"
  by (simp add: sample_fields_def validate_sensor_data_def ranges_def validate_field_def
      dict_get_def int_to_float_def in_range_def location_fields_def data_quality_def)

text \<open>Claim C6: the amended statement at a payload with temperature 100.\<close>

theorem validate_one_out_of_range_witness:
  "validate_sensor_data (\<lambda>s. None)
     (JObj (hot_fields @ [(''location'', JObj sample_location)])) =
   ([ValueOutOfRange ''temperature'' (Fin 100)],
    Inr [(''temperature'', JNull), (''humidity'', JFloat (Fin 50)),
         (''soil_moisture'', JFloat (Fin 40)), (''ph_level'', JFloat (Fin (13 / 2))),
         (''light_intensity'', JFloat (Fin 500)), (''battery_level'', JFloat (Fin 80)),
         (''signal_strength'', JFloat (Fin (- 60))),
         (''latitude'', JFloat (Fin (57 / 2))), (''longitude'', JFloat (Fin (771 / 10))),
         (''data_quality'', JFloat (Fin (8 / 9)))])"
proof -
  let ?d = "hot_fields @ [(''location'', JObj sample_location)]"
  have h1: "(''temperature'', - 50, 60) \<in> set ranges"
    by (simp add: ranges_def)
  have h2: "dict_get ?d ''temperature'' \<noteq> JNull"
    by (simp add: hot_fields_def dict_get_def)
  have h3: "py_float (\<lambda>s. None) (dict_get ?d ''temperature'') = Inr (Fin 100)"
    by (simp add: hot_fields_def dict_get_def int_to_float_def)
  have h4: "\<not> in_range (- 50) 60 (Fin 100)"
    by (simp add: in_range_def)
  have h5: "\<forall>r \<in> set ranges. fst r \<noteq> ''temperature'' \<longrightarrow>
              number_in (fst (snd r)) (snd (snd r)) (dict_get ?d (fst r))"
    by (simp add: ranges_def hot_fields_def dict_get_def)
  have h6: "map_of ?d ''location'' = Some (JObj sample_location)"
    by (simp add: hot_fields_def)
  have h7: "dict_get sample_location ''lat'' \<noteq> JNull"
    by (simp add: sample_location_def dict_get_def)
  have h8: "dict_get sample_location ''lon'' \<noteq> JNull"
    by (simp add: sample_location_def dict_get_def)
  show ?thesis
    using validate_one_out_of_range[OF h1 h2 h3 h4 h5 h6 h7 h8]
    by (simp add: ranges_def accepted_def hot_fields_def sample_location_def dict_get_def)
qed

text \<open>
  Claim C6 as stated fails: temperature 100 is the only field outside its range, the
  payload has no location, and the score is 6/9 = 2/3, which is \<open>(N - 1) / N\<close> neither
  for the seven ranged fields nor for the nine validated entries.
\<close>

theorem validate_one_out_no_location_counterexample:
  "\<not> in_range (- 50) 60 (Fin 100) \<and>
   dict_get hot_fields ''temperature'' = JInt 100 \<and>
   number_in 0 100 (dict_get hot_fields ''humidity'') \<and>
   number_in 0 100 (dict_get hot_fields ''soil_moisture'') \<and>
   number_in 0 14 (dict_get hot_fields ''ph_level'') \<and>
   number_in 0 2000 (dict_get hot_fields ''light_intensity'') \<and>
   number_in 0 100 (dict_get hot_fields ''battery_level'') \<and>
   number_in (- 120) 0 (dict_get hot_fields ''signal_strength'') \<and>
   validate_sensor_data (\<lambda>s. None) (JObj hot_fields) =
     ([ValueOutOfRange ''temperature'' (Fin 100)],
      Inr [(''temperature'', JNull), (''humidity'', JFloat (Fin 50)),
           (''soil_moisture'', JFloat (Fin 40)), (''ph_level'', JFloat (Fin (13 / 2))),
           (''light_intensity'', JFloat (Fin 500)), (''battery_level'', JFloat (Fin 80)),
           (''signal_strength'', JFloat (Fin (- 60))),
           (''latitude'', JNull), (''longitude'', JNull),
           (''data_quality'', JFloat (Fin (2 / 3)))]) \<and>
   (2 / 3 :: rat) \<noteq> (7 - 1) / 7 \<and> (2 / 3 :: rat) \<noteq> (9 - 1) / 9"
  by (simp add: hot_fields_def validate_sensor_data_def ranges_def validate_field_def
      dict_get_def int_to_float_def in_range_def location_fields_def data_quality_def)

text \<open>The location block at a payload whose \<open>lat\<close> is a string and whose \<open>lon\<close> is 500.\<close>

lemma validate_copies_location_example:
  "validate_sensor_data (\<lambda>s. None)
     (JObj [(''temperature'', JInt 25),
            (''location'', JObj [(''lat'', JStr ''north''), (''lon'', JInt 500)])]) =
   ([], Inr [(''temperature'', JFloat (Fin 25)), (''humidity'', JNull),
             (''soil_moisture'', JNull), (''ph_level'', JNull),
             (''light_intensity'', JNull), (''battery_level'', JNull),
             (''signal_strength'', JNull),
             (''latitude'', JStr ''north''), (''longitude'', JInt 500),
             (''data_quality'', JFloat (Fin (3 / 9)))])"
proof -
  let ?d = "[(''temperature'', JInt 25),
            (''location'', JObj [(''lat'', JStr ''north''), (''lon'', JInt 500)])]"
  have h1: "map_of ?d ''location'' = Some (JObj [(''lat'', JStr ''north''), (''lon'', JInt 500)])"
    by simp
  have h2: "\<forall>r \<in> set ranges. py_float (\<lambda>s. None) (dict_get ?d (fst r)) \<noteq> Inl OverflowError"
    by (simp add: ranges_def dict_get_def int_to_float_def)
  have vf: "validate_fields (\<lambda>s. None) ?d ranges =
     ([], Inr [(''temperature'', JFloat (Fin 25)), (''humidity'', JNull),
             (''soil_moisture'', JNull), (''ph_level'', JNull),
             (''light_intensity'', JNull), (''battery_level'', JNull),
             (''signal_strength'', JNull)])"
    by (simp add: ranges_def validate_field_def dict_get_def int_to_float_def in_range_def)
  show ?thesis
    using validate_copies_location[OF h1 h2] vf
    by (auto simp: dict_get_def)
qed

subsection \<open>An integer too large for \<^verbatim>\<open>float\<close>\<close>

text \<open>
  \<^verbatim>\<open>float(value)\<close> raises \<^verbatim>\<open>OverflowError\<close> on an integer of magnitude \<open>2 ^ 1024\<close> or
  more. The validator catches \<^verbatim>\<open>ValueError\<close> and \<^verbatim>\<open>TypeError\<close> only, so it raises too,
  and the processor logs the error and drops the whole reading.
\<close>

lemma bit_length_upper: "n < 2 ^ bit_length n"
proof (induction n rule: bit_length.induct)
  case (1 n)
  show ?case
  proof (cases "n = 0")
    case True
    then show ?thesis by (simp add: bit_length.simps)
  next
    case False
    with 1 have "n div 2 < 2 ^ bit_length (n div 2)" by simp
    then have "n < 2 * 2 ^ bit_length (n div 2)" by linarith
    then show ?thesis using False by (subst bit_length.simps) simp
  qed
qed

lemma bit_length_lower: "0 < n \<Longrightarrow> 2 ^ (bit_length n - 1) \<le> n"
proof (induction n rule: bit_length.induct)
  case (1 n)
  show ?case
  proof (cases "n div 2 = 0")
    case True
    with 1(2) have "n = 1" by (simp add: div_eq_0_iff) 
    then show ?thesis by (simp add: bit_length.simps)
  next
    case False
    with 1 have ih: "2 ^ (bit_length (n div 2) - 1) \<le> n div 2" by simp
    have pos: "0 < bit_length (n div 2)" using False by (subst bit_length.simps) simp
    have "bit_length n = Suc (bit_length (n div 2))"
      using 1(2) by (subst bit_length.simps) simp
    then have "2 ^ (bit_length n - 1) = 2 * 2 ^ (bit_length (n div 2) - 1)"
      using pos by (cases "bit_length (n div 2)") simp_all
    also have "\<dots> \<le> 2 * (n div 2)" using ih by simp
    also have "\<dots> \<le> n" by simp
    finally show ?thesis .
  qed
qed

lemma rounded_magnitude_large:
  fixes a N :: nat
  assumes "2 ^ N \<le> a" and "53 \<le> N"
  shows "\<not> a < 2 ^ 53"
    and "2 ^ N \<le> (if C then a div 2 ^ (bit_length a - 53) + 1 else a div 2 ^ (bit_length a - 53))
                    * 2 ^ (bit_length a - 53)"
proof -
  define e where "e = bit_length a - 53"
  define q where "q = a div 2 ^ e"
  have "(2::nat) ^ 53 \<le> 2 ^ N"
    using assms(2) by (rule power_increasing) simp
  then have "(2::nat) ^ 53 \<le> a" using assms(1) by (rule le_trans)
  then show "\<not> a < 2 ^ 53" by simp
  have a_pos: "0 < a"
    using assms(1) by (metis gr0I not_less_eq_eq le_zero_eq power_not_zero zero_neq_numeral)
  have "(2::nat) ^ N < 2 ^ bit_length a"
    using assms(1) bit_length_upper[of a] by (rule le_less_trans)
  then have len: "N < bit_length a" by (simp only: power_strict_increasing_iff one_less_numeral_iff semiring_norm)
  then have e_eq: "bit_length a - 1 = 52 + e" using assms(2) unfolding e_def by simp
  have "2 ^ (52 + e) \<le> a" using bit_length_lower[OF a_pos] e_eq by simp
  then have "(2 ^ 52 * 2 ^ e) div 2 ^ e \<le> a div 2 ^ e"
    by (intro div_le_mono) (simp add: power_add)
  then have q_big: "2 ^ 52 \<le> q" unfolding q_def by simp
  have "N \<le> 52 + e" using len assms(2) unfolding e_def by simp
  then have "(2::nat) ^ N \<le> 2 ^ (52 + e)"
    by (intro power_increasing) simp_all
  also have "\<dots> = 2 ^ 52 * 2 ^ e" by (simp add: power_add)
  also have "\<dots> \<le> q * 2 ^ e" using q_big by simp
  finally have m1: "2 ^ N \<le> q * 2 ^ e" .
  moreover have "q * 2 ^ e \<le> (q + 1) * 2 ^ e" by simp
  ultimately have m2: "2 ^ N \<le> (q + 1) * 2 ^ e" by (rule le_trans)
  show "2 ^ N \<le> (if C then a div 2 ^ (bit_length a - 53) + 1 else a div 2 ^ (bit_length a - 53))
                    * 2 ^ (bit_length a - 53)"
    using m1 m2 unfolding q_def e_def by (cases C) simp_all
qed

lemma int_to_float_overflow:
  assumes "2 ^ 1024 \<le> \<bar>i\<bar>"
  shows "int_to_float i = Inl OverflowError"
proof -
  have "int (2 ^ 1024) \<le> \<bar>i\<bar>" using assms by (simp only: of_nat_power of_nat_numeral)
  then have big: "(2::nat) ^ 1024 \<le> nat \<bar>i\<bar>" by (simp only: le_nat_iff of_nat_0_le_iff nat_le_iff)
  have le: "(53::nat) \<le> 1024" by simp
  note r = rounded_magnitude_large[OF big le]
  show ?thesis
    by (simp only: int_to_float_def Let_def r if_False if_True)
qed


lemma validate_field_raises:
  "validate_field s d f lo hi = (w, Inl e) \<Longrightarrow> e = OverflowError \<and> w = []"
  using py_float_errors[of s "dict_get d f"]
  by (auto simp: validate_field_def Let_def split: if_splits sum.splits)

lemma validate_field_huge:
  assumes "dict_get d f = JInt i" and "2 ^ 1024 \<le> \<bar>i\<bar>"
  shows "validate_field s d f lo hi = ([], Inl OverflowError)"
  using assms(1) int_to_float_overflow[OF assms(2)]
  by (simp add: validate_field_def)

lemma validate_fields_huge:
  assumes "(f, lo, hi) \<in> set rs" and "dict_get d f = JInt i" and "2 ^ 1024 \<le> \<bar>i\<bar>"
  shows "\<exists>w. validate_fields s d rs = (w, Inl OverflowError)"
  using assms(1)
proof (induction rs)
  case Nil
  then show ?case by simp
next
  case (Cons r rs)
  obtain g l h where r: "r = (g, l, h)" by (cases r) auto
  obtain w res where vf: "validate_field s d g l h = (w, res)"
    by (cases "validate_field s d g l h") auto
  show ?case
  proof (cases res)
    case (Inl e)
    then show ?thesis using vf validate_field_raises[of s d g l h w e] r by simp
  next
    case (Inr v)
    have "(g, l, h) \<noteq> (f, lo, hi)"
    proof
      assume "(g, l, h) = (f, lo, hi)"
      then have "validate_field s d g l h = ([], Inl OverflowError)"
        using validate_field_huge[OF assms(2,3)] by simp
      then show False using vf Inr by simp
    qed
    then have "(f, lo, hi) \<in> set rs" using Cons.prems r by auto
    then obtain ws where "validate_fields s d rs = (ws, Inl OverflowError)"
      using Cons.IH by auto
    then show ?thesis using vf Inr r by simp
  qed
qed

lemma validator_raises_on_huge_integer:
  assumes "(f, lo, hi) \<in> set ranges" and "dict_get data f = JInt i" and "2 ^ 1024 \<le> \<bar>i\<bar>"
  shows "\<exists>w. validate_sensor_data s2f (JObj data) = (w, Inl OverflowError)"
proof -
  from validate_fields_huge[OF assms] obtain w
    where "validate_fields s2f data ranges = (w, Inl OverflowError)" by blast
  then show ?thesis by (simp add: validate_sensor_data_def)
qed

lemma huge_integer_discards_reading:
  assumes "py_json_loads py (payload msg) = Some (JObj data)"
    and "(f, lo, hi) \<in> set ranges" and "dict_get data f = JInt i" and "2 ^ 1024 \<le> \<bar>i\<bar>"
  shows "\<exists>w. process_sensor_message py env msg m = log_append (w @ [ProcessingError OverflowError]) m"
proof -
  from validator_raises_on_huge_integer[OF assms(2,3,4)] obtain w
    where "validate_sensor_data (py_str_to_float py) (JObj data) = (w, Inl OverflowError)" by blast
  then have "process_sensor_message py env msg m =
               log_append (w @ [ProcessingError OverflowError]) m"
    using assms(1) by (simp add: process_sensor_message_def)
  then show ?thesis by blast
qed

text \<open>
  Claim C9 fails on the code. The payload has a nested location with \<open>lat\<close> and \<open>lon\<close>
  and the integer \<open>2 ^ 1024\<close> as temperature. \<^verbatim>\<open>float\<close> raises \<^verbatim>\<open>OverflowError\<close> in the
  loop over the ranges, no handler catches it, and the validator leaves before the
  location block: nothing is copied and no score is computed.
\<close>

theorem location_lost_on_huge_integer:
  "map_of huge_payload ''location'' =
     Some (JObj [(''lat'', JFloat (Fin (57 / 2))), (''lon'', JFloat (Fin (771 / 10)))]) \<and>
   validate_sensor_data (\<lambda>s. None) (JObj huge_payload) = ([], Inl OverflowError)"
proof -
  have big: "(2::int) ^ 1024 \<le> \<bar>2 ^ 1024\<bar>"
    by (simp only: abs_of_nonneg zero_le_power zero_le_numeral order_refl)
  have t: "dict_get huge_payload ''temperature'' = JInt (2 ^ 1024)"
    by (simp only: huge_payload_def dict_get_def map_of.simps fst_conv snd_conv fun_upd_same
        option.case)
  have f: "validate_field (\<lambda>s. None) huge_payload ''temperature'' (- 50) 60 =
             ([], Inl OverflowError)"
    by (rule validate_field_huge[OF t big])
  have v: "validate_fields (\<lambda>s. None) huge_payload ranges = ([], Inl OverflowError)"
    by (simp only: ranges_def validate_fields.simps f prod.case sum.case)
  have l: "map_of huge_payload ''location'' =
     Some (JObj [(''lat'', JFloat (Fin (57 / 2))), (''lon'', JFloat (Fin (771 / 10)))])"
    unfolding huge_payload_def by simp
  have "validate_sensor_data (\<lambda>s. None) (JObj huge_payload) = ([], Inl OverflowError)"
    by (simp only: validate_sensor_data_def json.case v prod.case sum.case)
  with l show ?thesis by blast
qed

section \<open>Alert engine: properties\<close>

lemma temperature_alerts_finite:
  "temperature_alerts fmt (JFloat (Fin t)) =
     Inr (if t < 5 then [(''critical'', ''Critically low temperature: '' @ fmt (JFloat (Fin t)) @ deg_C)]
          else if 40 < t then [(''critical'', ''Critically high temperature: '' @ fmt (JFloat (Fin t)) @ deg_C)]
          else if t < 10 \<or> 35 < t then [(''warning'', ''Temperature out of optimal range: '' @ fmt (JFloat (Fin t)) @ deg_C)]
          else [])"
  by (simp add: temperature_alerts_def)

lemma alert_list_temperature_only:
  assumes "dict_get sd ''soil_moisture'' = JNull" "dict_get sd ''ph_level'' = JNull"
    "dict_get sd ''battery_level'' = JNull"
  shows "alert_list fmt sd = temperature_alerts fmt (dict_get sd ''temperature'')"
  using assms
  by (simp add: alert_list_def moisture_alerts_def ph_alerts_def battery_alerts_def split: sum.splits)

lemma contains_temperature:
  "sublist ''temperature'' (''Critically low temperature: '' @ v @ s)"
proof -
  have "''Critically low temperature: '' @ v @ s = ''Critically low '' @ ''temperature'' @ ('': '' @ v @ s)"
    by simp
  then show ?thesis
    by (metis sublist_appendI)
qed

lemma temperature_block_rule:
  "(t < 5 \<or> 40 < t \<longrightarrow>
      (\<exists>msg. temperature_alerts fmt (JFloat (Fin t)) = Inr [(''critical'', msg)])) \<and>
   ((5 \<le> t \<and> t < 10) \<or> (35 < t \<and> t \<le> 40) \<longrightarrow>
      (\<exists>msg. temperature_alerts fmt (JFloat (Fin t)) = Inr [(''warning'', msg)])) \<and>
   (10 \<le> t \<and> t \<le> 35 \<longrightarrow> temperature_alerts fmt (JFloat (Fin t)) = Inr []) \<and>
   (dict_get sd ''soil_moisture'' = JNull \<and> dict_get sd ''ph_level'' = JNull \<and>
    dict_get sd ''battery_level'' = JNull \<longrightarrow>
      alert_list fmt sd = temperature_alerts fmt (dict_get sd ''temperature'')) \<and>
   alert_list fmt [(''temperature'', JFloat (Fin 4))] =
     Inr [(''critical'', ''Critically low temperature: '' @ fmt (JFloat (Fin 4)) @ deg_C)] \<and>
   sublist ''temperature'' (''Critically low temperature: '' @ fmt (JFloat (Fin 4)) @ deg_C) \<and>
   sublist (fmt (JFloat (Fin 4))) (''Critically low temperature: '' @ fmt (JFloat (Fin 4)) @ deg_C) \<and>
   (fmt (JFloat (Fin 4)) = ''4.0'' \<longrightarrow>
      sublist ''4'' (''Critically low temperature: '' @ fmt (JFloat (Fin 4)) @ deg_C)) \<and>
   alert_list fmt [(''temperature'', JFloat (Fin 25))] = Inr []"
proof -
  have a: "t < 5 \<or> 40 < t \<longrightarrow>
      (\<exists>msg. temperature_alerts fmt (JFloat (Fin t)) = Inr [(''critical'', msg)])"
    by (simp add: temperature_alerts_finite)
  have b: "(5 \<le> t \<and> t < 10) \<or> (35 < t \<and> t \<le> 40) \<longrightarrow>
      (\<exists>msg. temperature_alerts fmt (JFloat (Fin t)) = Inr [(''warning'', msg)])"
    by (auto simp: temperature_alerts_finite)
  have c: "10 \<le> t \<and> t \<le> 35 \<longrightarrow> temperature_alerts fmt (JFloat (Fin t)) = Inr []"
    by (auto simp: temperature_alerts_finite)
  have d: "dict_get sd ''soil_moisture'' = JNull \<and> dict_get sd ''ph_level'' = JNull \<and>
    dict_get sd ''battery_level'' = JNull \<longrightarrow>
      alert_list fmt sd = temperature_alerts fmt (dict_get sd ''temperature'')"
    by (simp add: alert_list_temperature_only)
  have e: "alert_list fmt [(''temperature'', JFloat (Fin 4))] =
     Inr [(''critical'', ''Critically low temperature: '' @ fmt (JFloat (Fin 4)) @ deg_C)]"
    by (simp add: alert_list_temperature_only dict_get_def temperature_alerts_finite)
  have f: "sublist ''temperature'' (''Critically low temperature: '' @ fmt (JFloat (Fin 4)) @ deg_C)"
    by (rule contains_temperature)
  have g: "sublist (fmt (JFloat (Fin 4))) (''Critically low temperature: '' @ fmt (JFloat (Fin 4)) @ deg_C)"
    by (rule sublist_appendI)
  have h: "fmt (JFloat (Fin 4)) = ''4.0'' \<longrightarrow>
      sublist ''4'' (''Critically low temperature: '' @ fmt (JFloat (Fin 4)) @ deg_C)"
  proof
    assume eq: "fmt (JFloat (Fin 4)) = ''4.0''"
    have "''Critically low temperature: '' @ ''4.0'' @ deg_C
        = ''Critically low temperature: '' @ ''4'' @ (''.0'' @ deg_C)" by simp
    then show "sublist ''4'' (''Critically low temperature: '' @ fmt (JFloat (Fin 4)) @ deg_C)"
      unfolding eq by (metis sublist_appendI)
  qed
  have i: "alert_list fmt [(''temperature'', JFloat (Fin 25))] = Inr []"
    by (simp add: alert_list_temperature_only dict_get_def temperature_alerts_finite)
  show ?thesis using a b c d e f g h i by blast
qed

lemma moisture_block_returns:
  "reading_value v \<Longrightarrow>
   \<exists>a. moisture_alerts fmt v = Inr a \<and> (v = JNull \<longrightarrow> a = [])"
  by (cases v) (simp_all add: moisture_alerts_def)

lemma ph_block_returns:
  "reading_value v \<Longrightarrow> \<exists>a. ph_alerts fmt v = Inr a \<and> (v = JNull \<longrightarrow> a = [])"
  by (cases v) (simp_all add: ph_alerts_def)

lemma battery_block_returns:
  "reading_value v \<Longrightarrow>
   \<exists>a. battery_alerts fmt v = Inr a \<and> (v = JNull \<longrightarrow> a = [])"
  by (cases v) (simp_all add: battery_alerts_def)

lemma store_alert_rows:
  "alerts (db (store_alert fail now dev ''sensor_threshold'' sev msg m)) =
     alerts (db m) @ alert_rows (\<lambda>k. (fail, now)) 0 (alert_seq (db m)) dev [(sev, msg)]"
  "alert_seq (db (store_alert fail now dev ty sev msg m)) =
     (if fail then alert_seq (db m) else alert_seq (db m) + 1)"
  "sensor_data (db (store_alert fail now dev ty sev msg m)) = sensor_data (db m)"
  by (simp_all add: store_alert_def log_append_def Let_def)

lemma store_alerts_rows:
  "alerts (db (store_alerts env k dev as m)) =
     alerts (db m) @ alert_rows env k (alert_seq (db m)) dev as \<and>
   sensor_data (db (store_alerts env k dev as m)) = sensor_data (db m)"
proof (induction as arbitrary: k m)
  case Nil
  then show ?case by simp
next
  case (Cons a as)
  obtain sev msg where a: "a = (sev, msg)" by (cases a) auto
  show ?case
    by (simp add: a Cons.IH store_alert_rows)
qed

lemma alert_rows_all_stored:
  "\<forall>k. \<not> fst (env k) \<Longrightarrow>
   map (\<lambda>a. (severity a, message a)) (alert_rows env k seq dev as) = as"
  by (induction as arbitrary: k seq) auto

text \<open>
  Every ranged entry of a validated reading is null or a float inside its range, so the
  comparisons of the alert engine never raise on what the validator hands on.
\<close>

lemma validate_field_value:
  "validate_field s d f lo hi = (w, Inr v) \<Longrightarrow>
   v = JNull \<or> (\<exists>x. v = JFloat x \<and> in_range lo hi x)"
  by (auto simp: validate_field_def Let_def split: if_splits sum.splits)

lemma validate_fields_values:
  "validate_fields s d rs = (w, Inr vs) \<Longrightarrow>
   map fst vs = map fst rs \<and> list_all (\<lambda>(k, v). reading_value v) vs"
proof (induction rs arbitrary: w vs)
  case Nil
  then show ?case by simp
next
  case (Cons r rs)
  obtain f lo hi where r: "r = (f, lo, hi)" by (cases r) auto
  obtain w1 r1 where f1: "validate_field s d f lo hi = (w1, r1)"
    by (cases "validate_field s d f lo hi") auto
  obtain w2 r2 where f2: "validate_fields s d rs = (w2, r2)"
    by (cases "validate_fields s d rs") auto
  from Cons.prems r f1 f2 obtain v vs' where
    parts: "r1 = Inr v" "r2 = Inr vs'" "vs = (f, v) # vs'"
    by (cases r1; cases r2) auto
  have "reading_value v"
    using validate_field_value[of s d f lo hi w1 v] f1 parts(1) by auto
  moreover have "map fst vs' = map fst rs \<and> list_all (\<lambda>(k, v). reading_value v) vs'"
    using Cons.IH[of w2 vs'] f2 parts(2) by simp
  ultimately show ?case using parts(3) r by simp
qed

lemma validated_reading_values:
  assumes "validate_sensor_data s2f doc = (w, Inr validated)"
    and "f \<in> fst ` set ranges"
  shows "reading_value (dict_get validated f)"
proof -
  from assms(1) obtain data where p: "doc = JObj data"
    by (cases doc) (simp_all add: validate_sensor_data_def)
  obtain w1 r1 where vf: "validate_fields s2f data ranges = (w1, r1)"
    by (cases "validate_fields s2f data ranges") auto
  from assms(1) p vf obtain vs where
    r1: "r1 = Inr vs" and
    v: "validated = (vs @ location_fields data) @
          [(''data_quality'', JFloat (Fin (data_quality (vs @ location_fields data))))]"
    by (cases r1) (auto simp: validate_sensor_data_def Let_def)
  from validate_fields_values[of s2f data ranges w1 vs] vf r1
  have keys: "map fst vs = map fst ranges" and vals: "list_all (\<lambda>(k, v). reading_value v) vs"
    by simp_all
  from assms(2) keys have "f \<in> fst ` set vs"
    by (metis set_map)
  then obtain x where x: "map_of vs f = Some x"
    by (metis map_of_eq_None_iff not_Some_eq)
  then have "(f, x) \<in> set vs" by (rule map_of_SomeD)
  with vals have "reading_value x" by (auto simp: list_all_iff)
  moreover have "dict_get validated f = x"
    using x by (simp add: v dict_get_def map_add_def)
  ultimately show ?thesis by simp
qed

text \<open>
  Claim C2. Take any reading whose temperature is the float \<open>t\<close> and whose soil
  moisture, pH and battery are what the validator leaves (null or a float). The alert
  engine returns, its list of alerts is the temperature block's alerts followed by
  those of the three other blocks, and the temperature block's are: exactly one critical
  alert when \<open>t < 5\<close> or \<open>t > 40\<close>, exactly one warning when \<open>t\<close> is in [5,10) or
  (35,40], none otherwise. The engine appends to the alerts table one row per alert of
  the list whose insert does not fail, in order, with the alert's severity and message;
  it changes no reading. At \<open>t = 4\<close> the temperature alert is the critical one whose
  message contains "temperature" and the formatted value (and so "4", when 4.0 prints
  as Python prints it); at \<open>t = 25\<close> with the other three null the engine stores nothing.
\<close>

theorem temperature_alert_rule:
  assumes "dict_get (sensor_fields r) ''temperature'' = JFloat (Fin t)"
    and "reading_value (dict_get (sensor_fields r) ''soil_moisture'')"
    and "reading_value (dict_get (sensor_fields r) ''ph_level'')"
    and "reading_value (dict_get (sensor_fields r) ''battery_level'')"
  shows "(\<exists>T a2 a3 a4 m'.
           temperature_alerts fmt (dict_get (sensor_fields r) ''temperature'') = Inr T \<and>
           (t < 5 \<or> 40 < t \<longrightarrow> (\<exists>msg. T = [(''critical'', msg)])) \<and>
           ((5 \<le> t \<and> t < 10) \<or> (35 < t \<and> t \<le> 40) \<longrightarrow> (\<exists>msg. T = [(''warning'', msg)])) \<and>
           (10 \<le> t \<and> t \<le> 35 \<longrightarrow> T = []) \<and>
           (t = 4 \<longrightarrow>
              T = [(''critical'', ''Critically low temperature: '' @ fmt (JFloat (Fin 4)) @ deg_C)]) \<and>
           moisture_alerts fmt (dict_get (sensor_fields r) ''soil_moisture'') = Inr a2 \<and>
           ph_alerts fmt (dict_get (sensor_fields r) ''ph_level'') = Inr a3 \<and>
           battery_alerts fmt (dict_get (sensor_fields r) ''battery_level'') = Inr a4 \<and>
           (dict_get (sensor_fields r) ''soil_moisture'' = JNull \<longrightarrow> a2 = []) \<and>
           (dict_get (sensor_fields r) ''ph_level'' = JNull \<longrightarrow> a3 = []) \<and>
           (dict_get (sensor_fields r) ''battery_level'' = JNull \<longrightarrow> a4 = []) \<and>
           alert_list fmt (sensor_fields r) = Inr (T @ a2 @ a3 @ a4) \<and>
           check_alert_conditions fmt env r m = Inr m' \<and>
           alerts (db m') =
             alerts (db m) @
               alert_rows env 0 (alert_seq (db m)) (device_id r) (T @ a2 @ a3 @ a4) \<and>
           sensor_data (db m') = sensor_data (db m) \<and>
           ((\<forall>k. \<not> fst (env k)) \<longrightarrow>
              map (\<lambda>a. (severity a, message a))
                (alert_rows env 0 (alert_seq (db m)) (device_id r) (T @ a2 @ a3 @ a4)) =
              T @ a2 @ a3 @ a4)) \<and>
         (sublist ''temperature'' (''Critically low temperature: '' @ fmt (JFloat (Fin 4)) @ deg_C)) \<and>
         (sublist (fmt (JFloat (Fin 4)))
           (''Critically low temperature: '' @ fmt (JFloat (Fin 4)) @ deg_C)) \<and>
         (fmt (JFloat (Fin 4)) = ''4.0'' \<longrightarrow>
           sublist ''4'' (''Critically low temperature: '' @ fmt (JFloat (Fin 4)) @ deg_C)) \<and>
         (t = 25 \<and> dict_get (sensor_fields r) ''soil_moisture'' = JNull \<and>
         dict_get (sensor_fields r) ''ph_level'' = JNull \<and>
         dict_get (sensor_fields r) ''battery_level'' = JNull \<longrightarrow>
           alert_list fmt (sensor_fields r) = Inr [] \<and>
           check_alert_conditions fmt env r m = Inr m)"
proof -
  define T where "T =
     (if t < 5 then [(''critical'', ''Critically low temperature: '' @ fmt (JFloat (Fin t)) @ deg_C)]
      else if 40 < t then [(''critical'', ''Critically high temperature: '' @ fmt (JFloat (Fin t)) @ deg_C)]
      else if t < 10 \<or> 35 < t then [(''warning'', ''Temperature out of optimal range: '' @ fmt (JFloat (Fin t)) @ deg_C)]
      else [])"
  have tb: "temperature_alerts fmt (dict_get (sensor_fields r) ''temperature'') = Inr T"
    unfolding T_def assms(1) by (rule temperature_alerts_finite)
  have c1: "t < 5 \<or> 40 < t \<longrightarrow> (\<exists>msg. T = [(''critical'', msg)])"
    by (simp add: T_def)
  have c2: "(5 \<le> t \<and> t < 10) \<or> (35 < t \<and> t \<le> 40) \<longrightarrow> (\<exists>msg. T = [(''warning'', msg)])"
    by (auto simp: T_def)
  have c3: "10 \<le> t \<and> t \<le> 35 \<longrightarrow> T = []"
    by (auto simp: T_def)
  have c4: "t = 4 \<longrightarrow>
              T = [(''critical'', ''Critically low temperature: '' @ fmt (JFloat (Fin 4)) @ deg_C)]"
    by (simp add: T_def)
  from moisture_block_returns[OF assms(2), of fmt] obtain a2 where
    b2: "moisture_alerts fmt (dict_get (sensor_fields r) ''soil_moisture'') = Inr a2"
    and n2: "dict_get (sensor_fields r) ''soil_moisture'' = JNull \<longrightarrow> a2 = []"
    by blast
  from ph_block_returns[OF assms(3), of fmt] obtain a3 where
    b3: "ph_alerts fmt (dict_get (sensor_fields r) ''ph_level'') = Inr a3"
    and n3: "dict_get (sensor_fields r) ''ph_level'' = JNull \<longrightarrow> a3 = []"
    by blast
  from battery_block_returns[OF assms(4), of fmt] obtain a4 where
    b4: "battery_alerts fmt (dict_get (sensor_fields r) ''battery_level'') = Inr a4"
    and n4: "dict_get (sensor_fields r) ''battery_level'' = JNull \<longrightarrow> a4 = []"
    by blast
  have al: "alert_list fmt (sensor_fields r) = Inr (T @ a2 @ a3 @ a4)"
    by (simp add: alert_list_def tb b2 b3 b4)
  define m' where "m' = store_alerts env 0 (device_id r) (T @ a2 @ a3 @ a4) m"
  have ch: "check_alert_conditions fmt env r m = Inr m'"
    by (simp add: check_alert_conditions_def al m'_def)
  have rows: "alerts (db m') =
             alerts (db m) @
               alert_rows env 0 (alert_seq (db m)) (device_id r) (T @ a2 @ a3 @ a4)"
    and keep: "sensor_data (db m') = sensor_data (db m)"
    unfolding m'_def using store_alerts_rows[of env 0 "device_id r" "T @ a2 @ a3 @ a4" m]
    by simp_all
  have proj: "(\<forall>k. \<not> fst (env k)) \<longrightarrow>
              map (\<lambda>a. (severity a, message a))
                (alert_rows env 0 (alert_seq (db m)) (device_id r) (T @ a2 @ a3 @ a4)) =
              T @ a2 @ a3 @ a4"
    using alert_rows_all_stored[of env 0 "alert_seq (db m)" "device_id r" "T @ a2 @ a3 @ a4"]
    by blast
  have p1: "\<exists>T a2 a3 a4 m'.
           temperature_alerts fmt (dict_get (sensor_fields r) ''temperature'') = Inr T \<and>
           (t < 5 \<or> 40 < t \<longrightarrow> (\<exists>msg. T = [(''critical'', msg)])) \<and>
           ((5 \<le> t \<and> t < 10) \<or> (35 < t \<and> t \<le> 40) \<longrightarrow> (\<exists>msg. T = [(''warning'', msg)])) \<and>
           (10 \<le> t \<and> t \<le> 35 \<longrightarrow> T = []) \<and>
           (t = 4 \<longrightarrow>
              T = [(''critical'', ''Critically low temperature: '' @ fmt (JFloat (Fin 4)) @ deg_C)]) \<and>
           moisture_alerts fmt (dict_get (sensor_fields r) ''soil_moisture'') = Inr a2 \<and>
           ph_alerts fmt (dict_get (sensor_fields r) ''ph_level'') = Inr a3 \<and>
           battery_alerts fmt (dict_get (sensor_fields r) ''battery_level'') = Inr a4 \<and>
           (dict_get (sensor_fields r) ''soil_moisture'' = JNull \<longrightarrow> a2 = []) \<and>
           (dict_get (sensor_fields r) ''ph_level'' = JNull \<longrightarrow> a3 = []) \<and>
           (dict_get (sensor_fields r) ''battery_level'' = JNull \<longrightarrow> a4 = []) \<and>
           alert_list fmt (sensor_fields r) = Inr (T @ a2 @ a3 @ a4) \<and>
           check_alert_conditions fmt env r m = Inr m' \<and>
           alerts (db m') =
             alerts (db m) @
               alert_rows env 0 (alert_seq (db m)) (device_id r) (T @ a2 @ a3 @ a4) \<and>
           sensor_data (db m') = sensor_data (db m) \<and>
           ((\<forall>k. \<not> fst (env k)) \<longrightarrow>
              map (\<lambda>a. (severity a, message a))
                (alert_rows env 0 (alert_seq (db m)) (device_id r) (T @ a2 @ a3 @ a4)) =
              T @ a2 @ a3 @ a4)"
    apply (rule exI[of _ T], rule exI[of _ a2], rule exI[of _ a3], rule exI[of _ a4],
        rule exI[of _ m'])
    apply (intro conjI)
    apply (rule tb c1 c2 c3 c4 b2 b3 b4 n2 n3 n4 al ch rows keep proj)+
    done
  have p2: "sublist ''temperature'' (''Critically low temperature: '' @ fmt (JFloat (Fin 4)) @ deg_C)"
    by (rule contains_temperature)
  have p3: "sublist (fmt (JFloat (Fin 4)))
           (''Critically low temperature: '' @ fmt (JFloat (Fin 4)) @ deg_C)"
    by (rule sublist_appendI)
  have p4: "fmt (JFloat (Fin 4)) = ''4.0'' \<longrightarrow>
           sublist ''4'' (''Critically low temperature: '' @ fmt (JFloat (Fin 4)) @ deg_C)"
    using temperature_block_rule[of t fmt "[]"] by blast
  have p5: "t = 25 \<and> dict_get (sensor_fields r) ''soil_moisture'' = JNull \<and>
         dict_get (sensor_fields r) ''ph_level'' = JNull \<and>
         dict_get (sensor_fields r) ''battery_level'' = JNull \<longrightarrow>
           alert_list fmt (sensor_fields r) = Inr [] \<and>
           check_alert_conditions fmt env r m = Inr m"
  proof
    assume h: "t = 25 \<and> dict_get (sensor_fields r) ''soil_moisture'' = JNull \<and>
         dict_get (sensor_fields r) ''ph_level'' = JNull \<and>
         dict_get (sensor_fields r) ''battery_level'' = JNull"
    then have "T = []" "a2 = []" "a3 = []" "a4 = []"
      using c3 n2 n3 n4 by simp_all
    then show "alert_list fmt (sensor_fields r) = Inr [] \<and>
           check_alert_conditions fmt env r m = Inr m"
      using al ch by (simp add: m'_def)
  qed
  show ?thesis
    by (intro conjI) (rule p1 p2 p3 p4 p5)+
qed

text \<open>
  Claim C2 at the reading with temperature 4 alone, every insert succeeding at clock
  1000 and 4.0 printed as "4.0": the engine adds the one critical row.
\<close>

theorem temperature_alert_rule_witness:
  "\<exists>m'. check_alert_conditions sample_format calm cold_reading new_manager = Inr m' \<and>
         alerts (db m') =
           [\<lparr>alert_id = 1, alert_timestamp = 1000, alert_device_id = ''dev1'',
             alert_type = ''sensor_threshold'', severity = ''critical'',
             message = ''Critically low temperature: 4.0'' @ deg_C, acknowledged = False\<rparr>]"
proof -
  have h1: "dict_get (sensor_fields cold_reading) ''temperature'' = JFloat (Fin 4)"
    by (simp add: cold_reading_def dict_get_def)
  have h2: "reading_value (dict_get (sensor_fields cold_reading) ''soil_moisture'')"
    by (simp add: cold_reading_def dict_get_def)
  have h3: "reading_value (dict_get (sensor_fields cold_reading) ''ph_level'')"
    by (simp add: cold_reading_def dict_get_def)
  have h4: "reading_value (dict_get (sensor_fields cold_reading) ''battery_level'')"
    by (simp add: cold_reading_def dict_get_def)
  have n: "dict_get (sensor_fields cold_reading) ''soil_moisture'' = JNull"
    "dict_get (sensor_fields cold_reading) ''ph_level'' = JNull"
    "dict_get (sensor_fields cold_reading) ''battery_level'' = JNull"
    by (simp_all add: cold_reading_def dict_get_def)
  from conjunct1[OF temperature_alert_rule[OF h1 h2 h3 h4, where fmt = sample_format
      and env = calm and m = new_manager]]
  obtain T a2 a3 a4 m' where
    T: "(4::rat) = 4 \<longrightarrow>
          T = [(''critical'', ''Critically low temperature: '' @ sample_format (JFloat (Fin 4)) @ deg_C)]"
    and a: "dict_get (sensor_fields cold_reading) ''soil_moisture'' = JNull \<longrightarrow> a2 = []"
      "dict_get (sensor_fields cold_reading) ''ph_level'' = JNull \<longrightarrow> a3 = []"
      "dict_get (sensor_fields cold_reading) ''battery_level'' = JNull \<longrightarrow> a4 = []"
    and ch: "check_alert_conditions sample_format calm cold_reading new_manager = Inr m'"
    and rows: "alerts (db m') =
             alerts (db new_manager) @
               alert_rows calm 0 (alert_seq (db new_manager)) (device_id cold_reading)
                 (T @ a2 @ a3 @ a4)"
    by blast
  have "T @ a2 @ a3 @ a4 =
          [(''critical'', ''Critically low temperature: 4.0'' @ deg_C)]"
    using T a n by (simp add: sample_format_def)
  then have "alerts (db m') =
           [\<lparr>alert_id = 1, alert_timestamp = 1000, alert_device_id = ''dev1'',
             alert_type = ''sensor_threshold'', severity = ''critical'',
             message = ''Critically low temperature: 4.0'' @ deg_C, acknowledged = False\<rparr>]"
    using rows by (simp add: new_manager_def init_database_def calm_def cold_reading_def)
  with ch show ?thesis by blast
qed

section \<open>Ingestion queue: properties\<close>

lemma log_append_frame:
  "log_append rs (m\<lparr>data_queue := q, logged := l @ logged m\<rparr>) =
     (log_append rs m)\<lparr>data_queue := q, logged := l @ logged (log_append rs m)\<rparr>"
  by (simp add: log_append_def)

lemma store_sensor_data_frame:
  "store_sensor_data fail r (m\<lparr>data_queue := q, logged := l @ logged m\<rparr>) =
     (store_sensor_data fail r m)\<lparr>data_queue := q, logged := l @ logged (store_sensor_data fail r m)\<rparr>"
  by (simp add: store_sensor_data_def log_append_def Let_def)

lemma store_alert_frame:
  "store_alert fail now dev ty sev msg (m\<lparr>data_queue := q, logged := l @ logged m\<rparr>) =
     (store_alert fail now dev ty sev msg m)
       \<lparr>data_queue := q, logged := l @ logged (store_alert fail now dev ty sev msg m)\<rparr>"
  by (simp add: store_alert_def log_append_def Let_def)

lemma store_alerts_frame:
  "store_alerts env k dev as (m\<lparr>data_queue := q, logged := l @ logged m\<rparr>) =
     (store_alerts env k dev as m)
       \<lparr>data_queue := q, logged := l @ logged (store_alerts env k dev as m)\<rparr>"
proof (induction as arbitrary: k m)
  case Nil
  then show ?case by simp
next
  case (Cons a as)
  obtain sev msg where a: "a = (sev, msg)" by (cases a) auto
  show ?case
    by (simp add: a store_alert_frame Cons.IH)
qed

lemma process_sensor_message_frame:
  "process_sensor_message py env msg (m\<lparr>data_queue := q, logged := l @ logged m\<rparr>) =
     (process_sensor_message py env msg m)
       \<lparr>data_queue := q, logged := l @ logged (process_sensor_message py env msg m)\<rparr>"
proof (cases "py_json_loads py (payload msg)")
  case None
  then show ?thesis by (simp add: process_sensor_message_def log_append_frame)
next
  case (Some data)
  obtain w res where v: "validate_sensor_data (py_str_to_float py) data = (w, res)"
    by (cases "validate_sensor_data (py_str_to_float py) data") auto
  show ?thesis
  proof (cases res)
    case (Inl e)
    then show ?thesis using Some v by (simp add: process_sensor_message_def log_append_frame)
  next
    case (Inr validated)
    show ?thesis
      using Some v Inr
      by (simp add: process_sensor_message_def check_alert_conditions_def Let_def
          log_append_frame store_sensor_data_frame store_alerts_frame split: sum.splits)
  qed
qed

lemma process_batch_frame:
  "process_batch py xs (m\<lparr>data_queue := q, logged := l @ logged m\<rparr>) =
     (process_batch py xs m)\<lparr>data_queue := q, logged := l @ logged (process_batch py xs m)\<rparr>"
proof (induction xs arbitrary: m)
  case Nil
  then show ?case by simp
next
  case (Cons x xs)
  obtain env msg where x: "x = (env, msg)" by (cases x) auto
  show ?case by (simp add: x process_sensor_message_frame Cons.IH)
qed


lemma process_batch_queue:
  "process_batch py xs (m\<lparr>data_queue := q\<rparr>) = (process_batch py xs m)\<lparr>data_queue := q\<rparr>"
  using process_batch_frame[where l = "[]" and m = m and q = q and py = py and xs = xs] by simp

lemma process_batch_keeps_queue: "data_queue (process_batch py xs m) = data_queue m"
proof -
  have "process_batch py xs (m\<lparr>data_queue := data_queue m\<rparr>) =
          (process_batch py xs m)\<lparr>data_queue := data_queue m\<rparr>"
    by (rule process_batch_queue)
  then have "process_batch py xs m = (process_batch py xs m)\<lparr>data_queue := data_queue m\<rparr>"
    by simp
  then have "data_queue (process_batch py xs m) =
               data_queue ((process_batch py xs m)\<lparr>data_queue := data_queue m\<rparr>)"
    by simp
  then show ?thesis by simp
qed

lemma process_batch_log_prepend:
  "process_batch py xs (log_prepend l m) = log_prepend l (process_batch py xs m)"
proof -
  have "process_batch py xs (m\<lparr>data_queue := data_queue m, logged := l @ logged m\<rparr>) =
     (process_batch py xs m)\<lparr>data_queue := data_queue m, logged := l @ logged (process_batch py xs m)\<rparr>"
    by (rule process_batch_frame)
  moreover have "(process_batch py xs m)\<lparr>data_queue := data_queue m\<rparr> = process_batch py xs m"
    using process_batch_keeps_queue[of py xs m] by simp
  ultimately show ?thesis by (simp add: log_prepend_def)
qed







section \<open>Message processor: properties\<close>

lemma process_batch_append:
  "process_batch py (xs @ ys) m = process_batch py ys (process_batch py xs m)"
proof (induction xs arbitrary: m)
  case Nil
  then show ?case by simp
next
  case (Cons x xs)
  obtain env msg where x: "x = (env, msg)" by (cases x) auto
  show ?case by (simp add: x Cons.IH)
qed

lemma log_prepend_unlogged: "log_prepend (logged m) (unlogged m) = m"
  by (simp add: log_prepend_def unlogged_def)

lemma log_append_as_prepend: "log_append rs m = log_prepend (logged m @ rs) (unlogged m)"
  by (simp add: log_prepend_def unlogged_def log_append_def)

lemma process_malformed:
  "py_json_loads py (payload bad) = None \<Longrightarrow>
   process_sensor_message py env bad m = log_append [InvalidJSON] m"
  by (simp add: process_sensor_message_def)

text \<open>
  Claim C8, as amended. A message whose payload does not parse changes nothing but the
  log, which gains one error record. A batch that contains it ends in the state of the
  batch without it, but for that one record at the message's place in the log: no
  other message is affected. No counter is touched.
\<close>

theorem malformed_payload_discarded:
  assumes "py_json_loads py (payload bad) = None"
  shows "process_sensor_message py env bad m = log_append [InvalidJSON] m \<and>
         process_batch py (before @ (env, bad) # after) m =
           log_prepend (logged (process_batch py before m) @ [InvalidJSON])
             (process_batch py after (unlogged (process_batch py before m))) \<and>
         process_batch py (before @ after) m =
           log_prepend (logged (process_batch py before m))
             (process_batch py after (unlogged (process_batch py before m)))"
proof -
  let ?m1 = "process_batch py before m"
  have 1: "process_sensor_message py env bad m = log_append [InvalidJSON] m"
    by (rule process_malformed[OF assms])
  have "process_batch py (before @ (env, bad) # after) m =
          process_batch py after (log_append [InvalidJSON] ?m1)"
    by (simp add: process_batch_append process_malformed[OF assms])
  also have "\<dots> = process_batch py after (log_prepend (logged ?m1 @ [InvalidJSON]) (unlogged ?m1))"
    by (simp only: log_append_as_prepend)
  finally have 2: "process_batch py (before @ (env, bad) # after) m =
           log_prepend (logged ?m1 @ [InvalidJSON]) (process_batch py after (unlogged ?m1))"
    by (simp only: process_batch_log_prepend)
  have "process_batch py (before @ after) m =
          process_batch py after (log_prepend (logged ?m1) (unlogged ?m1))"
    by (simp only: process_batch_append log_prepend_unlogged)
  then have 3: "process_batch py (before @ after) m =
           log_prepend (logged ?m1) (process_batch py after (unlogged ?m1))"
    by (simp only: process_batch_log_prepend)
  show ?thesis using 1 2 3 by blast
qed

text \<open>
  Claim C8 as stated fails: the manager keeps no error counter. Processing a malformed
  payload leaves both of its counters, received and processed, as they were.
\<close>

theorem malformed_payload_no_counter_counterexample:
  "py_json_loads sample_builtins (payload bad_message) = None \<and>
   process_sensor_message sample_builtins calm bad_message new_manager =
     new_manager\<lparr>logged := [DatabaseInitialized, ManagerInitialized, InvalidJSON]\<rparr> \<and>
   messages_received (process_sensor_message sample_builtins calm bad_message new_manager) =
     messages_received new_manager \<and>
   messages_processed (process_sensor_message sample_builtins calm bad_message new_manager) =
     messages_processed new_manager"
  by (simp add: process_sensor_message_def sample_builtins_def bad_message_def log_append_def
      new_manager_def)

text \<open>Claim C8, amended, on a batch of a good, a malformed and a good message.\<close>

theorem malformed_payload_discarded_witness:
  "process_batch sample_builtins [(calm, good_message), (calm, bad_message), (calm, good_message)]
     new_manager =
   log_prepend (logged (process_batch sample_builtins [(calm, good_message)] new_manager)
                  @ [InvalidJSON])
     (process_batch sample_builtins [(calm, good_message)]
        (unlogged (process_batch sample_builtins [(calm, good_message)] new_manager)))"
proof -
  have h: "py_json_loads sample_builtins (payload bad_message) = None"
    by (simp add: sample_builtins_def bad_message_def)
  from malformed_payload_discarded[OF h, of calm new_manager "[(calm, good_message)]"
      "[(calm, good_message)]"]
  show ?thesis by simp
qed

lemma split_topic: "split_on CHR ''/'' ''agri/sensors/dev1/data'' = [''agri'', ''sensors'', ''dev1'', ''data'']"
  by simp

text \<open>
  One tick's work on the payload \<^verbatim>\<open>{"temperature": 4}\<close> sent to device \<open>dev1\<close>: one
  stored reading, one critical alert, one message counted.
\<close>

lemma process_cold_reading:
  "process_sensor_message sample_builtins calm good_message new_manager =
     new_manager\<lparr>db :=
        \<lparr>sensor_data =
           [\<lparr>row_id = 1, row_timestamp = 990, row_device_id = ''dev1'',
             row_values =
               [(''temperature'', JFloat (Fin 4)), (''humidity'', JNull),
                (''soil_moisture'', JNull), (''ph_level'', JNull), (''light_intensity'', JNull),
                (''latitude'', JNull), (''longitude'', JNull), (''battery_level'', JNull),
                (''signal_strength'', JNull), (''data_quality'', JFloat (Fin (1 / 9)))],
             row_raw_json = ''{\"temperature\": 4}'', row_processed = False\<rparr>],
         alerts =
           [\<lparr>alert_id = 1, alert_timestamp = 1000, alert_device_id = ''dev1'',
             alert_type = ''sensor_threshold'', severity = ''critical'',
             message = ''Critically low temperature: 4.0'' @ deg_C, acknowledged = False\<rparr>],
         sensor_seq = 1, alert_seq = 1\<rparr>,
       messages_processed := 1,
       logged := [DatabaseInitialized, ManagerInitialized,
                  AlertGenerated ''dev1'' ''critical'' (''Critically low temperature: 4.0'' @ deg_C)]\<rparr>"
  by (simp add: process_sensor_message_def sample_builtins_def good_message_def
     validate_sensor_data_def ranges_def validate_field_def dict_get_def int_to_float_def
     in_range_def location_fields_def data_quality_def log_append_def store_sensor_data_def
     value_columns_def check_alert_conditions_def alert_list_def temperature_alerts_def
     moisture_alerts_def ph_alerts_def battery_alerts_def store_alert_def calm_def
     new_manager_def init_database_def sample_format_def Let_def)

section \<open>Retention sweeper: properties\<close>

lemma cleanup_sets:
  "set (sensor_data (db (cleanup_old_data False now m))) =
     {r \<in> set (sensor_data (db m)). cutoff now (data_retention_days m) \<le> row_timestamp r}"
  "set (alerts (db (cleanup_old_data False now m))) =
     {a \<in> set (alerts (db m)). cutoff now (data_retention_days m) \<le> alert_timestamp a}"
  by (auto simp: cleanup_old_data_def Let_def log_append_def)

text \<open>
  Claim C5. With a retention of 30 days, a sweep that the store carries out removes from
  both tables every row stamped 31 days before the store's clock and keeps every row
  stamped 29 days before it: exactly the rows not older than 30 days remain. Readings
  are stamped by the manager's local clock and the cutoff is the store's UTC clock; an
  offset of less than a day between the two changes neither verdict.
\<close>

theorem sweep_thirty_days:
  assumes "data_retention_days m = 30"
  shows "(\<forall>r \<in> set (sensor_data (db m)). row_timestamp r = now - 31 * 86400 \<longrightarrow>
            r \<notin> set (sensor_data (db (cleanup_old_data False now m)))) \<and>
         (\<forall>a \<in> set (alerts (db m)). alert_timestamp a = now - 31 * 86400 \<longrightarrow>
            a \<notin> set (alerts (db (cleanup_old_data False now m)))) \<and>
         (\<forall>r \<in> set (sensor_data (db m)). row_timestamp r = now - 29 * 86400 \<longrightarrow>
            r \<in> set (sensor_data (db (cleanup_old_data False now m)))) \<and>
         (\<forall>a \<in> set (alerts (db m)). alert_timestamp a = now - 29 * 86400 \<longrightarrow>
            a \<in> set (alerts (db (cleanup_old_data False now m)))) \<and>
         (\<forall>r \<in> set (sensor_data (db m)). \<forall>zone. \<bar>zone\<bar> < 86400 \<longrightarrow>
            (row_timestamp r = now - 31 * 86400 + zone \<longrightarrow>
               r \<notin> set (sensor_data (db (cleanup_old_data False now m)))) \<and>
            (row_timestamp r = now - 29 * 86400 + zone \<longrightarrow>
               r \<in> set (sensor_data (db (cleanup_old_data False now m))))) \<and>
         set (sensor_data (db (cleanup_old_data False now m))) =
           {r \<in> set (sensor_data (db m)). now - 30 * 86400 \<le> row_timestamp r} \<and>
         set (alerts (db (cleanup_old_data False now m))) =
           {a \<in> set (alerts (db m)). now - 30 * 86400 \<le> alert_timestamp a}"
  using assms by (auto simp: cleanup_sets cutoff_def)

text \<open>Claim C5 at day 40, on rows and alerts stamped on day 9 and day 11.\<close>

theorem sweep_thirty_days_witness:
  "sample_row 1 (9 * 86400) \<notin> set (sensor_data (db (cleanup_old_data False (40 * 86400) sample_store))) \<and>
   sample_row 2 (11 * 86400) \<in> set (sensor_data (db (cleanup_old_data False (40 * 86400) sample_store))) \<and>
   sample_alert 1 (9 * 86400) \<notin> set (alerts (db (cleanup_old_data False (40 * 86400) sample_store))) \<and>
   sample_alert 2 (11 * 86400) \<in> set (alerts (db (cleanup_old_data False (40 * 86400) sample_store)))"
proof -
  have h: "data_retention_days sample_store = 30"
    by (simp add: sample_store_def new_manager_def)
  have rows: "sensor_data (db sample_store) = [sample_row 1 (9 * 86400), sample_row 2 (11 * 86400)]"
    and als: "alerts (db sample_store) = [sample_alert 1 (9 * 86400), sample_alert 2 (11 * 86400)]"
    by (simp_all add: sample_store_def)
  from sweep_thirty_days[OF h, of "40 * 86400"] show ?thesis
    by (simp add: rows als sample_row_def sample_alert_def)
qed

text \<open>
  Claim C4 fails on the code. The sweep removes the old rows of both tables, but the
  count it logs is \<^verbatim>\<open>cursor.rowcount\<close> of the second \<^verbatim>\<open>DELETE\<close>, the alerts removed. Here
  one reading of day 9 is removed at day 40, no alert is, and nothing is logged.
\<close>

theorem cleanup_logs_alert_count_only:
  "cleanup_old_data False (40 * 86400) old_reading_store =
     old_reading_store\<lparr>db := \<lparr>sensor_data = [], alerts = [], sensor_seq = 1, alert_seq = 0\<rparr>\<rparr> \<and>
   sensor_data (db old_reading_store) = [sample_row 1 (9 * 86400)] \<and>
   logged (cleanup_old_data False (40 * 86400) old_reading_store) = logged old_reading_store"
  by (simp add: cleanup_old_data_def old_reading_store_def new_manager_def cutoff_def
      sample_row_def log_append_def)


section \<open>Queries: properties\<close>

text \<open>
  Claim C10. When the storage call of \<^verbatim>\<open>get_latest_data\<close> or \<^verbatim>\<open>get_active_alerts\<close>
  raises, the operation returns the empty list and logs an error; otherwise it returns
  the rows of the query. Either way the caller receives a list.
\<close>

theorem queries_never_raise:
  "(query_latest fail dev (db m) = Inl e \<longrightarrow>
      get_latest_data fail dev m = ([], log_append [LatestDataError] m)) \<and>
   (query_active_alerts fail (db m) = Inl e \<longrightarrow>
      get_active_alerts fail m = ([], log_append [ActiveAlertsError] m)) \<and>
   query_latest True dev (db m) = Inl StorageError \<and>
   query_active_alerts True (db m) = Inl StorageError \<and>
   fst (get_latest_data True dev m) = [] \<and>
   fst (get_active_alerts True m) = [] \<and>
   (\<exists>rows. query_latest False dev (db m) = Inr rows \<and> get_latest_data False dev m = (rows, m)) \<and>
   (\<exists>rows. query_active_alerts False (db m) = Inr rows \<and> get_active_alerts False m = (rows, m))"
  by (auto simp: get_latest_data_def get_active_alerts_def query_latest_def
      query_active_alerts_def split: option.splits)

text \<open>Claim C10 on a store of two readings and two alerts, the storage call failing.\<close>

theorem queries_never_raise_witness:
  "get_latest_data True (Some ''dev1'') sample_store =
     ([], log_append [LatestDataError] sample_store) \<and>
   get_active_alerts True sample_store = ([], log_append [ActiveAlertsError] sample_store)"
proof -
  have 1: "query_latest True (Some ''dev1'') (db sample_store) = Inl StorageError"
    by (simp add: query_latest_def)
  have 2: "query_active_alerts True (db sample_store) = Inl StorageError"
    by (simp add: query_active_alerts_def)
  from queries_never_raise[of True "Some ''dev1''" sample_store StorageError] 1 2
  show ?thesis by blast
qed

section \<open>Acknowledgement: properties\<close>

lemma afg_log_append: "db (log_append rs m) = db m"
  by (simp add: log_append_def)

lemma afg_store_sensor_data:
  "alerts (db (store_sensor_data fail r m)) = alerts (db m) \<and>
   alert_seq (db (store_sensor_data fail r m)) = alert_seq (db m)"
  by (simp add: store_sensor_data_def log_append_def Let_def)

lemma afg_store_alert:
  assumes "acknowledged_for_good i (db m)"
  shows "acknowledged_for_good i (db (store_alert fail now dev ty sev msg m))"
  using assms
  by (auto simp: acknowledged_for_good_def alert_ids_issued_def store_alert_def log_append_def
      Let_def list_all_iff)

lemma afg_store_alerts:
  "acknowledged_for_good i (db m) \<Longrightarrow> acknowledged_for_good i (db (store_alerts env k dev as m))"
proof (induction as arbitrary: k m)
  case Nil
  then show ?case by simp
next
  case (Cons a as)
  obtain sev msg where a: "a = (sev, msg)" by (cases a) auto
  show ?case
    using Cons.prems by (simp add: a Cons.IH afg_store_alert)
qed

lemma afg_db_cong:
  "alerts d' = alerts d \<Longrightarrow> alert_seq d' = alert_seq d \<Longrightarrow>
   acknowledged_for_good i d \<Longrightarrow> acknowledged_for_good i d'"
  by (simp add: acknowledged_for_good_def alert_ids_issued_def)

lemma afg_process:
  assumes "acknowledged_for_good i (db m)"
  shows "acknowledged_for_good i (db (process_sensor_message py env msg m))"
proof (cases "py_json_loads py (payload msg)")
  case None
  then show ?thesis using assms by (simp add: process_sensor_message_def afg_log_append)
next
  case (Some data)
  obtain w res where v: "validate_sensor_data (py_str_to_float py) data = (w, res)"
    by (cases "validate_sensor_data (py_str_to_float py) data") auto
  show ?thesis
  proof (cases res)
    case (Inl e)
    then show ?thesis using Some v assms by (simp add: process_sensor_message_def afg_log_append)
  next
    case (Inr validated)
    have stored: "acknowledged_for_good i (db (store_sensor_data f r (log_append w m)))" for f r
    proof (rule afg_db_cong[OF _ _ assms])
      show "alerts (db (store_sensor_data f r (log_append w m))) = alerts (db m)"
        using afg_store_sensor_data[of f r "log_append w m"] by (simp add: afg_log_append)
      show "alert_seq (db (store_sensor_data f r (log_append w m))) = alert_seq (db m)"
        using afg_store_sensor_data[of f r "log_append w m"] by (simp add: afg_log_append)
    qed
    show ?thesis
      using Some v Inr stored
      by (simp add: process_sensor_message_def check_alert_conditions_def Let_def
          afg_log_append afg_store_alerts split: sum.splits)
  qed
qed

lemma afg_process_queued:
  "acknowledged_for_good i (db m) \<Longrightarrow>
   acknowledged_for_good i (db (process_queued py envs k q m))"
proof (induction q arbitrary: k m)
  case Nil
  then show ?case by simp
next
  case (Cons msg rest)
  have "acknowledged_for_good i (db (m\<lparr>data_queue := rest\<rparr>))"
    using Cons.prems by simp
  then show ?case
    by (simp add: Cons.IH afg_process)
qed

lemma afg_on_message: "db (on_message now stamp msg m) = db m"
  by (simp add: on_message_def log_append_def Let_def split: option.splits)

lemma afg_cleanup:
  "acknowledged_for_good i (db m) \<Longrightarrow> acknowledged_for_good i (db (cleanup_old_data fail now m))"
  by (auto simp: cleanup_old_data_def acknowledged_for_good_def alert_ids_issued_def
      log_append_def Let_def list_all_iff)

lemma afg_acknowledge:
  "acknowledged_for_good i (db m) \<Longrightarrow> acknowledged_for_good i (db (acknowledge_alert fail j m))"
  by (auto simp: acknowledge_alert_def acknowledged_for_good_def alert_ids_issued_def
      log_append_def Let_def list_all_iff)

lemma afg_queries:
  "db (snd (get_latest_data fail dev m)) = db m"
  "db (snd (get_active_alerts fail m)) = db m"
  by (simp_all add: get_latest_data_def get_active_alerts_def log_append_def split: sum.splits)

lemma afg_apply_operation:
  "acknowledged_for_good i (db m) \<Longrightarrow> acknowledged_for_good i (db (apply_operation op m))"
  by (cases op)
     (simp_all add: afg_on_message drain_queue_def afg_process_queued afg_cleanup
        afg_acknowledge afg_queries)

lemma afg_run:
  "acknowledged_for_good i (db m) \<Longrightarrow> acknowledged_for_good i (db (run ops m))"
  unfolding run_def
  by (induction ops arbitrary: m) (simp_all add: afg_apply_operation)

lemma afg_established:
  assumes "alert_ids_issued (db m)" and "i \<in> alert_id ` set (alerts (db m))"
  shows "acknowledged_for_good i (db (acknowledge_alert False i m))"
  using assms
  by (auto simp: acknowledge_alert_def acknowledged_for_good_def alert_ids_issued_def
      log_append_def Let_def list_all_iff)

lemma active_alerts_subset:
  "a \<in> set (fst (get_active_alerts fail m)) \<Longrightarrow> a \<in> set (alerts (db m)) \<and> \<not> acknowledged a"
  by (auto simp: get_active_alerts_def query_active_alerts_def newest_first_def
      split: if_splits dest: in_set_takeD)

lemma afg_inactive:
  assumes "acknowledged_for_good i (db m)" and "a \<in> set (fst (get_active_alerts fail m))"
  shows "alert_id a \<noteq> i"
  using assms active_alerts_subset[of a fail m]
  by (auto simp: acknowledged_for_good_def list_all_iff)

lemma afg_acknowledge_again:
  assumes "acknowledged_for_good i (db m)"
  shows "db (acknowledge_alert False i m) = db m"
proof -
  have "map (\<lambda>a. if alert_id a = i then a\<lparr>acknowledged := True\<rparr> else a) (alerts (db m)) =
          alerts (db m)"
    using assms by (auto simp: acknowledged_for_good_def list_all_iff intro!: map_idI)
  then show ?thesis
    by (simp add: acknowledge_alert_def log_append_def Let_def)
qed

lemma acknowledge_twice:
  "db (acknowledge_alert False i (acknowledge_alert False i m)) = db (acknowledge_alert False i m)"
  by (simp add: acknowledge_alert_def log_append_def Let_def o_def cong: if_cong)

text \<open>
  Claim C7. In a store whose alert ids were all handed out by the table's sequence,
  once an alert id present in the table is acknowledged, no later \<^verbatim>\<open>get_active_alerts\<close>
  returns an alert with that id, whatever operations run in between; and acknowledging
  the id again, at once or later, leaves the store as it is.
\<close>

theorem acknowledge_removes_for_good:
  assumes "alert_ids_issued (db m)" and "i \<in> alert_id ` set (alerts (db m))"
  shows "(\<forall>a \<in> set (fst (get_active_alerts fail (run ops (acknowledge_alert False i m)))).
            alert_id a \<noteq> i) \<and>
         db (acknowledge_alert False i (acknowledge_alert False i m)) =
           db (acknowledge_alert False i m) \<and>
         db (acknowledge_alert False i (run ops (acknowledge_alert False i m))) =
           db (run ops (acknowledge_alert False i m))"
proof -
  have inv: "acknowledged_for_good i (db (run ops (acknowledge_alert False i m)))"
    by (rule afg_run[OF afg_established[OF assms]])
  show ?thesis
    using afg_inactive[OF inv] afg_acknowledge_again[OF inv] acknowledge_twice
    by blast
qed

text \<open>Claim C7 on a store of two alerts, acknowledging the first.\<close>

theorem acknowledge_removes_for_good_witness:
  "fst (get_active_alerts False sample_store) =
     [sample_alert 2 (11 * 86400), sample_alert 1 (9 * 86400)] \<and>
   fst (get_active_alerts False (acknowledge_alert False 1 sample_store)) =
     [sample_alert 2 (11 * 86400)] \<and>
   1 \<notin> alert_id ` set (fst (get_active_alerts False
          (run [OnMessage 1000 1001 late_message, DrainQueue sample_builtins (\<lambda>k. calm),
                CleanupOldData False (12 * 86400)]
             (acknowledge_alert False 1 sample_store))))"
proof -
  have h1: "alert_ids_issued (db sample_store)"
    by (simp add: alert_ids_issued_def sample_store_def sample_alert_def)
  have h2: "1 \<in> alert_id ` set (alerts (db sample_store))"
    by (simp add: sample_store_def sample_alert_def)
  have a: "fst (get_active_alerts False sample_store) =
     [sample_alert 2 (11 * 86400), sample_alert 1 (9 * 86400)]"
    by (simp add: get_active_alerts_def query_active_alerts_def newest_first_def
        sample_store_def sample_alert_def)
  have b: "fst (get_active_alerts False (acknowledge_alert False 1 sample_store)) =
     [sample_alert 2 (11 * 86400)]"
    by (simp add: get_active_alerts_def query_active_alerts_def newest_first_def
        acknowledge_alert_def log_append_def sample_store_def sample_alert_def)
  from acknowledge_removes_for_good[OF h1 h2, of False
      "[OnMessage 1000 1001 late_message, DrainQueue sample_builtins (\<lambda>k. calm),
        CleanupOldData False (12 * 86400)]"]
  have c: "1 \<notin> alert_id ` set (fst (get_active_alerts False
          (run [OnMessage 1000 1001 late_message, DrainQueue sample_builtins (\<lambda>k. calm),
                CleanupOldData False (12 * 86400)]
             (acknowledge_alert False 1 sample_store))))"
    by (auto simp only: image_iff)
  show ?thesis using a b c by simp
qed

lemma new_manager_ids_issued: "alert_ids_issued (db new_manager)"
  by (simp add: alert_ids_issued_def new_manager_def init_database_def)

end
